theory Spec2Isabelle
  imports Complex_Main "HOL-Library.Multiset" "HOL-Library.Char_ord" "HOL-Library.List_Lexorder"
begin

section \<open>Data model (track.model.ts, player-state.enum.ts)\<close>

datatype MusicCategory =
  POP | ROCK | RAP | JAZZ | CLASSICAL | ELECTRONIC | HIPHOP | RNB | COUNTRY | REGGAE
  | METAL | BLUES | FOLK

fun categoryValue :: "MusicCategory \<Rightarrow> string" where
  "categoryValue POP = ''pop''"
| "categoryValue ROCK = ''rock''"
| "categoryValue RAP = ''rap''"
| "categoryValue JAZZ = ''jazz''"
| "categoryValue CLASSICAL = ''classical''"
| "categoryValue ELECTRONIC = ''electronic''"
| "categoryValue HIPHOP = ''hiphop''"
| "categoryValue RNB = ''rnb''"
| "categoryValue COUNTRY = ''country''"
| "categoryValue REGGAE = ''reggae''"
| "categoryValue METAL = ''metal''"
| "categoryValue BLUES = ''blues''"
| "categoryValue FOLK = ''folk''"

text \<open>
  A date field holds a \<open>Date\<close> object while the record lives in the program or in
  IndexedDB (structured clone keeps it): a valid one, given by its instant in milliseconds,
  or an invalid one. \<open>JSON.stringify\<close> writes a valid \<open>Date\<close> as its ISO-8601 string
  and an invalid one as \<open>null\<close>, and \<open>JSON.parse\<close> gives the string or \<open>null\<close>
  back, so a record read from an export carries one of these there. The string is given by
  the instant it denotes.
\<close>

datatype DateField = DateObj int | InvalidDate | IsoString int | DateNull

text \<open>
  A number field holds a number of the language: a finite double, given by its value (the
  two zeros are one), an infinity or \<open>NaN\<close>. \<open>JSON.stringify\<close> writes a number that
  is not finite as \<open>null\<close>, so a record read from an export can carry \<open>null\<close> there.
\<close>

datatype NumberField = Num real | PosInf | NegInf | NaN | Null

text \<open>The field \<open>id\<close> is named \<open>trackId\<close>: \<open>id\<close> is the identity function of HOL.\<close>

record Track =
  trackId :: string
  title :: string
  artist :: string
  description :: "string option"
  duration :: NumberField
  category :: MusicCategory
  addedDate :: DateField
  fileUrl :: string
  fileSize :: NumberField
  fileType :: string
  coverImage :: "string option"
  coverColor :: "string option"
  plays :: NumberField
  likes :: NumberField

datatype PlayerStatus = Playing | Paused | Buffering | Stopped | Loading

section \<open>Numbers of the language\<close>

text \<open>
  The value of a finite number; \<open>null\<close> counts as \<open>0\<close> in arithmetic and in
  comparisons, and the other cases are decided before the value is asked for.
\<close>

fun finiteValue :: "NumberField \<Rightarrow> real" where
  "finiteValue (Num r) = r"
| "finiteValue _ = 0"

text \<open>\<open>x || 0\<close>: the falsy values are \<open>0\<close>, \<open>NaN\<close> and \<open>null\<close>.\<close>

definition orZero :: "NumberField \<Rightarrow> NumberField" where
  "orZero x = (if x = Num 0 \<or> x = NaN \<or> x = Null then Num 0 else x)"

text \<open>
  Arithmetic is that of binary64: the exact result is rounded to the nearest double, a tie
  going to the even significand. A double in the binade of exponent \<open>e\<close> is a multiple
  of \<open>2 powi (e - 52)\<close>; below exponent \<open>-1022\<close> the spacing stays that of
  \<open>-1022\<close>, and a result that rounds to \<open>2 ^ 1024\<close> or beyond is an infinity.
\<close>

definition roundHalfEven :: "real \<Rightarrow> int" where
  "roundHalfEven q =
     (let f = \<lfloor>q\<rfloor>; d = q - of_int f
      in if d < 1 / 2 then f
         else if d > 1 / 2 then f + 1
         else if even f then f else f + 1)"

definition binade :: "real \<Rightarrow> int" where
  "binade a = max (- 1022) \<lfloor>log 2 a\<rfloor>"

definition roundDouble :: "real \<Rightarrow> NumberField" where
  "roundDouble x =
     (if x = 0 then Num 0
      else
        (let a = \<bar>x\<bar>;
             ulp = 2 powi (binade a - 52);
             r = of_int (roundHalfEven (a / ulp)) * ulp
         in if r \<ge> 2 ^ 1024 then (if x < 0 then NegInf else PosInf)
            else Num (sgn x * r)))"

text \<open>\<open>a + b\<close> and \<open>a - b\<close> on numbers.\<close>

definition jsAdd :: "NumberField \<Rightarrow> NumberField \<Rightarrow> NumberField" where
  "jsAdd a b =
     (if a = NaN \<or> b = NaN then NaN
      else if a = PosInf then (if b = NegInf then NaN else PosInf)
      else if a = NegInf then (if b = PosInf then NaN else NegInf)
      else if b = PosInf then PosInf
      else if b = NegInf then NegInf
      else roundDouble (finiteValue a + finiteValue b))"

definition jsSub :: "NumberField \<Rightarrow> NumberField \<Rightarrow> NumberField" where
  "jsSub a b =
     (if a = NaN \<or> b = NaN then NaN
      else if a = PosInf then (if b = PosInf then NaN else PosInf)
      else if a = NegInf then (if b = NegInf then NaN else NegInf)
      else if b = PosInf then NegInf
      else if b = NegInf then PosInf
      else roundDouble (finiteValue a - finiteValue b))"

text \<open>\<open>a < b\<close> on numbers: false as soon as one of them is \<open>NaN\<close>.\<close>

definition numLess :: "NumberField \<Rightarrow> NumberField \<Rightarrow> bool" where
  "numLess a b =
     (if a = NaN \<or> b = NaN then False
      else if a = PosInf \<or> b = NegInf then False
      else if a = NegInf \<or> b = PosInf then True
      else finiteValue a < finiteValue b)"

section \<open>Playback engine (audio-player.service.ts)\<close>

text \<open>
  The audio element is the device. The model keeps the attributes the service reads
  or writes: \<open>src\<close>, \<open>currentTime\<close>, \<open>duration\<close> (\<open>None\<close> is \<open>NaN\<close>: no
  media known yet) and \<open>paused\<close>.
\<close>

record AudioElement =
  src :: string
  elemCurrentTime :: real
  elemDuration :: "real option"
  paused :: bool

record AudioPlayerService =
  audioElement :: AudioElement
  currentTrackSignal :: "Track option"
  statusSignal :: PlayerStatus
  currentTimeSignal :: real
  volumeSignal :: real
  isMutedSignal :: bool
  queueSignal :: "Track list"
  currentIndexSignal :: int
  isShuffledSignal :: bool
  isRepeatingSignal :: bool
  originalQueueSignal :: "Track list"
  errorSignal :: string
  isLoadingSignal :: bool

definition initialPlayer :: AudioPlayerService where
  "initialPlayer =
     \<lparr> audioElement = \<lparr> src = [], elemCurrentTime = 0, elemDuration = None, paused = True \<rparr>,
       currentTrackSignal = None,
       statusSignal = Stopped,
       currentTimeSignal = 0,
       volumeSignal = 7 / 10,
       isMutedSignal = False,
       queueSignal = [],
       currentIndexSignal = - 1,
       isShuffledSignal = False,
       isRepeatingSignal = False,
       originalQueueSignal = [],
       errorSignal = [],
       isLoadingSignal = False \<rparr>"

subsection \<open>Array primitives of the language\<close>

text \<open>\<open>arr[i]\<close>: \<open>undefined\<close> (here \<open>None\<close>) outside the array.\<close>

definition at_index :: "'a list \<Rightarrow> int \<Rightarrow> 'a option" where
  "at_index xs i = (if 0 \<le> i \<and> i < int (length xs) then Some (xs ! nat i) else None)"

text \<open>\<open>arr.findIndex(p)\<close>: the first position where \<open>p\<close> holds, \<open>-1\<close> when there is none.\<close>

fun findIndex :: "('a \<Rightarrow> bool) \<Rightarrow> 'a list \<Rightarrow> int" where
  "findIndex p [] = - 1"
| "findIndex p (x # xs) =
     (if p x then 0 else (let r = findIndex p xs in if r = - 1 then - 1 else r + 1))"

text \<open>\<open>arr.slice(start, end)\<close> and \<open>arr.slice(start)\<close>, negative arguments counting from the end.\<close>

definition slice :: "'a list \<Rightarrow> int \<Rightarrow> int \<Rightarrow> 'a list" where
  "slice xs start fin =
     (let len = int (length xs);
          k = (if start < 0 then max (len + start) 0 else min start len);
          e = (if fin < 0 then max (len + fin) 0 else min fin len)
      in take (nat (e - k)) (drop (nat k) xs))"

definition sliceFrom :: "'a list \<Rightarrow> int \<Rightarrow> 'a list" where
  "sliceFrom xs start = slice xs start (int (length xs))"

text \<open>\<open>arr.filter((_, i) => i !== index)\<close>.\<close>

definition filterIndexNot :: "int \<Rightarrow> 'a list \<Rightarrow> 'a list" where
  "filterIndexNot index xs =
     map snd (filter (\<lambda>(i, _). int i \<noteq> index) (enumerate 0 xs))"

subsection \<open>Playback controls\<close>

text \<open>
  \<open>duration = computed(() => this.audioElement?.duration || 0)\<close>, read here from the
  device at each call. The properties below seek to \<open>0\<close> only, where the clamp of
  \<open>seek\<close> yields \<open>0\<close> whatever this value is.
\<close>

definition durationC :: "AudioPlayerService \<Rightarrow> real" where
  "durationC s =
     (case elemDuration (audioElement s) of
        None \<Rightarrow> 0
      | Some d \<Rightarrow> if d = 0 then 0 else d)"

definition seek :: "real \<Rightarrow> AudioPlayerService \<Rightarrow> AudioPlayerService" where
  "seek time s =
     (case elemDuration (audioElement s) of
        None \<Rightarrow> s
      | Some d \<Rightarrow>
          if d = 0 then s
          else
            (let safeTime = max 0 (min time (durationC s))
             in s\<lparr> audioElement := (audioElement s)\<lparr> elemCurrentTime := safeTime \<rparr>,
                   currentTimeSignal := safeTime \<rparr>))"


text \<open>
  \<open>loadTrack\<close> is asynchronous and is called without \<open>await\<close> by \<open>next\<close>,
  \<open>previous\<close> and \<open>setQueue\<close>: what runs before the caller goes on is its body up to
  the first \<open>await\<close>. With \<open>undefined\<close> for a track (an index outside the queue)
  \<open>track.fileUrl\<close> throws inside the \<open>try\<close>, after the current track has been set:
  the \<open>catch\<close> records the error and stops, and the rejection stays in the promise.
  Binding a new source makes the device forget position and duration.
\<close>

definition loadTrack :: "Track option \<Rightarrow> AudioPlayerService \<Rightarrow> AudioPlayerService" where
  "loadTrack track s =
     (let s1 = s\<lparr> statusSignal := Loading, errorSignal := [], isLoadingSignal := True \<rparr>
      in case track of
           None \<Rightarrow>
             s1\<lparr> currentTrackSignal := None,
                 errorSignal := ''Impossible de charger la piste'',
                 statusSignal := Stopped,
                 isLoadingSignal := False \<rparr>
         | Some t \<Rightarrow>
             (let s2 = s1\<lparr> currentTrackSignal := Some t,
                            audioElement := (audioElement s1)
                              \<lparr> src := fileUrl t, elemCurrentTime := 0, elemDuration := None \<rparr> \<rparr>;
                  index = findIndex (\<lambda>q. trackId q = trackId t) (queueSignal s2)
              in if index \<noteq> - 1 then s2\<lparr> currentIndexSignal := index \<rparr> else s2))"

text \<open>
  \<open>play()\<close> without a track, up to its \<open>await\<close>: the device is asked to play when there
  is a current track. The status is written only when the device's promise settles.
\<close>

definition play :: "AudioPlayerService \<Rightarrow> AudioPlayerService" where
  "play s =
     (case currentTrackSignal s of
        None \<Rightarrow> s
      | Some _ \<Rightarrow> s\<lparr> audioElement := (audioElement s)\<lparr> paused := False \<rparr> \<rparr>)"


definition playRejected :: "AudioPlayerService \<Rightarrow> AudioPlayerService" where
  "playRejected s =
     s\<lparr> errorSignal := ''Impossible de lire la piste'', statusSignal := Stopped \<rparr>"

definition "next" :: "AudioPlayerService \<Rightarrow> AudioPlayerService" where
  "next s =
     (let currentIndex = currentIndexSignal s; queue = queueSignal s
      in if currentIndex < int (length queue) - 1 then
           play ((loadTrack (at_index queue (currentIndex + 1)) s)
                   \<lparr> currentIndexSignal := currentIndex + 1 \<rparr>)
         else if isRepeatingSignal s then
           play ((loadTrack (at_index queue 0) s)\<lparr> currentIndexSignal := 0 \<rparr>)
         else s)"

definition previous :: "AudioPlayerService \<Rightarrow> AudioPlayerService" where
  "previous s =
     (let currentIndex = currentIndexSignal s; queue = queueSignal s;
          currentTime = currentTimeSignal s
      in if currentTime > 3 then seek 0 s
         else if currentIndex > 0 then
           play ((loadTrack (at_index queue (currentIndex - 1)) s)
                   \<lparr> currentIndexSignal := currentIndex - 1 \<rparr>)
         else s)"



subsection \<open>Shuffle\<close>

text \<open>
  \<open>[a[i], a[j]] = [a[j], a[i]]\<close>: both reads happen before the writes.
\<close>

definition swap :: "nat \<Rightarrow> nat \<Rightarrow> 'a list \<Rightarrow> 'a list" where
  "swap i j xs = xs[i := xs ! j, j := xs ! i]"

text \<open>
  The loop \<open>for (i = length - 1; i > 0; i--)\<close>. \<open>rnd i\<close> is the number that
  \<open>Math.random()\<close> returns in the round of index \<open>i\<close>; the language promises
  \<open>0 \<le> rnd i < 1\<close>.
\<close>

fun shuffleLoop :: "(nat \<Rightarrow> real) \<Rightarrow> nat \<Rightarrow> 'a list \<Rightarrow> 'a list" where
  "shuffleLoop rnd 0 xs = xs"
| "shuffleLoop rnd (Suc i) xs =
     (let j = nat \<lfloor>rnd (Suc i) * (real (Suc i) + 1)\<rfloor>
      in shuffleLoop rnd i (swap (Suc i) j xs))"

definition shuffleQueue ::
  "(nat \<Rightarrow> real) \<Rightarrow> Track list \<Rightarrow> AudioPlayerService \<Rightarrow> AudioPlayerService" where
  "shuffleQueue rnd tracks s =
     (let shuffled = shuffleLoop rnd (length tracks - 1) tracks;
          s1 = s\<lparr> queueSignal := shuffled \<rparr>
      in case currentTrackSignal s1 of
           None \<Rightarrow> s1
         | Some currentTrack \<Rightarrow>
             (let index = findIndex (\<lambda>t. trackId t = trackId currentTrack) shuffled
              in if index \<noteq> - 1 then s1\<lparr> currentIndexSignal := index \<rparr> else s1))"

definition toggleShuffle :: "(nat \<Rightarrow> real) \<Rightarrow> AudioPlayerService \<Rightarrow> AudioPlayerService" where
  "toggleShuffle rnd s =
     (let willShuffle = \<not> isShuffledSignal s;
          s1 = s\<lparr> isShuffledSignal := willShuffle \<rparr>
      in if willShuffle then shuffleQueue rnd (queueSignal s1) s1
         else
           (let s2 = s1\<lparr> queueSignal := originalQueueSignal s1 \<rparr>
            in case currentTrackSignal s2 of
                 None \<Rightarrow> s2
               | Some currentTrack \<Rightarrow>
                   (let index = findIndex (\<lambda>t. trackId t = trackId currentTrack)
                                  (originalQueueSignal s2)
                    in if index \<noteq> - 1 then s2\<lparr> currentIndexSignal := index \<rparr> else s2)))"

subsection \<open>Queue management\<close>

definition setQueue ::
  "(nat \<Rightarrow> real) \<Rightarrow> Track list \<Rightarrow> int \<Rightarrow> AudioPlayerService \<Rightarrow> AudioPlayerService" where
  "setQueue rnd tracks startIndex s =
     (let s1 = s\<lparr> originalQueueSignal := tracks \<rparr>;
          s2 = (if isShuffledSignal s1 then shuffleQueue rnd tracks s1
                else s1\<lparr> queueSignal := tracks \<rparr>)
      in if length tracks > 0 \<and> startIndex < int (length tracks) then
           (loadTrack (at_index tracks startIndex) s2)\<lparr> currentIndexSignal := startIndex \<rparr>
         else s2)"

definition addToQueue :: "Track \<Rightarrow> bool \<Rightarrow> AudioPlayerService \<Rightarrow> AudioPlayerService" where
  "addToQueue track playNext s =
     (let currentQueue = queueSignal s; currentIndex = currentIndexSignal s;
          s1 = (if playNext then
                  s\<lparr> queueSignal :=
                       slice currentQueue 0 (currentIndex + 1) @ [track]
                         @ sliceFrom currentQueue (currentIndex + 1) \<rparr>
                else s\<lparr> queueSignal := queueSignal s @ [track] \<rparr>)
      in s1\<lparr> originalQueueSignal := originalQueueSignal s1 @ [track] \<rparr>)"

definition removeFromQueue :: "int \<Rightarrow> AudioPlayerService \<Rightarrow> AudioPlayerService" where
  "removeFromQueue index s =
     (if index \<ge> 0 \<and> index < int (length (queueSignal s)) then
        (let s1 = s\<lparr> queueSignal := filterIndexNot index (queueSignal s) \<rparr>
         in if index \<le> currentIndexSignal s1 then
              s1\<lparr> currentIndexSignal := max 0 (currentIndexSignal s1 - 1) \<rparr>
            else s1)
      else s)"

text \<open>A call of the queue interface, and a sequence of calls run from a state.\<close>

datatype QueueCall =
  SetQueue "nat \<Rightarrow> real" "Track list" int
  | AddToQueue Track bool
  | RemoveFromQueue int

fun call :: "QueueCall \<Rightarrow> AudioPlayerService \<Rightarrow> AudioPlayerService" where
  "call (SetQueue rnd tracks startIndex) s = setQueue rnd tracks startIndex s"
| "call (AddToQueue track playNext) s = addToQueue track playNext s"
| "call (RemoveFromQueue index) s = removeFromQueue index s"

fun calls :: "QueueCall list \<Rightarrow> AudioPlayerService \<Rightarrow> AudioPlayerService" where
  "calls [] s = s"
| "calls (c # cs) s = calls cs (call c s)"

text \<open>\<open>setQueue\<close> called with a start index that is a position of the new list.\<close>

fun startInRange :: "QueueCall \<Rightarrow> bool" where
  "startInRange (SetQueue rnd tracks startIndex) =
     (0 \<le> startIndex \<and> startIndex < int (length tracks))"
| "startInRange _ = True"

subsection \<open>Sample tracks and states\<close>

definition mkTrack :: "string \<Rightarrow> string \<Rightarrow> Track" where
  "mkTrack i t =
     \<lparr> trackId = i, title = t, artist = ''X'', description = None, duration = Num 180,
       category = POP, addedDate = DateObj 0, fileUrl = ''blob:'' @ i, fileSize = Num 1000,
       fileType = ''audio/mpeg'', coverImage = None, coverColor = None,
       plays = Num 0, likes = Num 0 \<rparr>"

definition trackA :: Track where "trackA = mkTrack ''a'' ''A''"
definition trackB :: Track where "trackB = mkTrack ''b'' ''B''"
definition trackC :: Track where "trackC = mkTrack ''c'' ''C''"

definition sampleCalls :: "QueueCall list" where
  "sampleCalls =
     [SetQueue (\<lambda>_. 0) [trackA, trackB] 1, AddToQueue trackC True, RemoveFromQueue 0]"

text \<open>What the index points at in the live queue: the id of the track there, if any.\<close>

definition pointerId :: "AudioPlayerService \<Rightarrow> string option" where
  "pointerId s = map_option trackId (at_index (queueSignal s) (currentIndexSignal s))"

section \<open>Persistence store (storage.service.ts)\<close>

record Playlist =
  playlistId :: string
  name :: string
  playlistDescription :: "string option"
  tracks :: "Track list"
  playlistCoverImage :: "string option"
  createdDate :: DateField
  isPublic :: bool

datatype JsError = DOMException string | SyntaxError string | Error string

fun message :: "JsError \<Rightarrow> string" where
  "message (DOMException m) = m"
| "message (SyntaxError m) = m"
| "message (Error m) = m"

text \<open>
  An object store with key path \<open>id\<close> is a list of records with one record per key.
  \<open>store.put\<close> replaces the record of the same key or adds the record,
  \<open>store.get\<close> finds the record of a key, \<open>store.delete\<close> removes it and succeeds
  whether or not it was there. IndexedDB lists records in key order; the model lists them
  in the order of their first \<open>put\<close>, and no property below depends on it.
\<close>

fun putRecord :: "('r \<Rightarrow> string) \<Rightarrow> 'r \<Rightarrow> 'r list \<Rightarrow> 'r list" where
  "putRecord key r [] = [r]"
| "putRecord key r (x # xs) = (if key x = key r then r # xs else x # putRecord key r xs)"

definition getRecord :: "('r \<Rightarrow> string) \<Rightarrow> string \<Rightarrow> 'r list \<Rightarrow> 'r option" where
  "getRecord key k rs = find (\<lambda>r. key r = k) rs"

definition deleteRecord :: "('r \<Rightarrow> string) \<Rightarrow> string \<Rightarrow> 'r list \<Rightarrow> 'r list" where
  "deleteRecord key k rs = filter (\<lambda>r. key r \<noteq> k) rs"

record StorageService =
  tracksStore :: "Track list"
  playlistsStore :: "Playlist list"
  storageError :: "string option"

definition emptyStorage :: StorageService where
  "emptyStorage = \<lparr> tracksStore = [], playlistsStore = [], storageError = None \<rparr>"

text \<open>
  A call to the database has one of three outcomes, and the outcome is the device's: each
  operation takes it as an argument, for a \<open>put\<close> depending on the record.
  \<^item> \<open>Succeeds\<close>: the request fires \<open>onsuccess\<close>.
  \<^item> \<open>Fails e\<close>: the request fires \<open>onerror\<close> with \<open>request.error = e\<close>; the handler
    records a message in \<open>storageError\<close> and rejects with \<open>e\<close>.
  \<^item> \<open>Throws e\<close>: \<open>transaction\<close> or the call on the store throws \<open>e\<close> (a record
    without a valid key, a closed database) inside the executor of the promise, before a
    handler is attached; the promise is rejected with \<open>e\<close> and \<open>storageError\<close> is
    left as it was.

  An operation returns its result, or the error its promise is rejected with, together with
  the service after it. The database is taken as open (\<open>waitForDB\<close> returns at once).
  The messages are written without their accents.
\<close>

datatype Outcome = Succeeds | Fails JsError | Throws JsError

definition saveTrack ::
  "(Track \<Rightarrow> Outcome) \<Rightarrow> Track \<Rightarrow> StorageService \<Rightarrow> (JsError + string) \<times> StorageService" where
  "saveTrack req track st =
     (case req track of
        Succeeds \<Rightarrow>
          (Inr (trackId track), st\<lparr> tracksStore := putRecord trackId track (tracksStore st) \<rparr>)
      | Fails e \<Rightarrow>
          (Inl e, st\<lparr> storageError := Some ''Erreur lors de la sauvegarde de la piste'' \<rparr>)
      | Throws e \<Rightarrow> (Inl e, st))"

definition getTrack ::
  "Outcome \<Rightarrow> string \<Rightarrow> StorageService \<Rightarrow> (JsError + Track option) \<times> StorageService" where
  "getTrack req k st =
     (case req of
        Succeeds \<Rightarrow> (Inr (getRecord trackId k (tracksStore st)), st)
      | Fails e \<Rightarrow>
          (Inl e, st\<lparr> storageError := Some ''Erreur lors de la recuperation de la piste'' \<rparr>)
      | Throws e \<Rightarrow> (Inl e, st))"

definition getAllTracks ::
  "Outcome \<Rightarrow> StorageService \<Rightarrow> (JsError + Track list) \<times> StorageService" where
  "getAllTracks req st =
     (case req of
        Succeeds \<Rightarrow> (Inr (tracksStore st), st)
      | Fails e \<Rightarrow>
          (Inl e, st\<lparr> storageError := Some ''Erreur lors de la recuperation des pistes'' \<rparr>)
      | Throws e \<Rightarrow> (Inl e, st))"

definition StorageService_deleteTrack ::
  "Outcome \<Rightarrow> string \<Rightarrow> StorageService \<Rightarrow> (JsError + unit) \<times> StorageService" where
  "StorageService_deleteTrack req k st =
     (case req of
        Succeeds \<Rightarrow> (Inr (), st\<lparr> tracksStore := deleteRecord trackId k (tracksStore st) \<rparr>)
      | Fails e \<Rightarrow>
          (Inl e, st\<lparr> storageError := Some ''Erreur lors de la suppression de la piste'' \<rparr>)
      | Throws e \<Rightarrow> (Inl e, st))"

text \<open>
  \<open>track.likes = (track.likes || 0) + 1\<close> on the record just read, then the save, then
  the new count; \<open>0\<close> without a write when there is no record.
\<close>

definition toggleTrackLike ::
  "Outcome \<Rightarrow> (Track \<Rightarrow> Outcome) \<Rightarrow> string \<Rightarrow> StorageService
     \<Rightarrow> (JsError + NumberField) \<times> StorageService" where
  "toggleTrackLike getReq putReq k st =
     (case getTrack getReq k st of
        (Inl e, st1) \<Rightarrow> (Inl e, st1)
      | (Inr None, st1) \<Rightarrow> (Inr (Num 0), st1)
      | (Inr (Some track), st1) \<Rightarrow>
          (let track' = track\<lparr> likes := jsAdd (orZero (likes track)) (Num 1) \<rparr>
           in case saveTrack putReq track' st1 of
                (Inl e, st2) \<Rightarrow> (Inl e, st2)
              | (Inr _, st2) \<Rightarrow> (Inr (likes track'), st2)))"

definition savePlaylist ::
  "(Playlist \<Rightarrow> Outcome) \<Rightarrow> Playlist \<Rightarrow> StorageService
     \<Rightarrow> (JsError + string) \<times> StorageService" where
  "savePlaylist req playlist st =
     (case req playlist of
        Succeeds \<Rightarrow>
          (Inr (playlistId playlist),
           st\<lparr> playlistsStore := putRecord playlistId playlist (playlistsStore st) \<rparr>)
      | Fails e \<Rightarrow>
          (Inl e, st\<lparr> storageError := Some ''Erreur lors de la sauvegarde de la playlist'' \<rparr>)
      | Throws e \<Rightarrow> (Inl e, st))"

definition getAllPlaylists ::
  "Outcome \<Rightarrow> StorageService \<Rightarrow> (JsError + Playlist list) \<times> StorageService" where
  "getAllPlaylists req st =
     (case req of
        Succeeds \<Rightarrow> (Inr (playlistsStore st), st)
      | Fails e \<Rightarrow>
          (Inl e, st\<lparr> storageError := Some ''Erreur lors de la recuperation des playlists'' \<rparr>)
      | Throws e \<Rightarrow> (Inl e, st))"

text \<open>The comparator of \<open>getMostPlayedTracks\<close>: \<open>(b.plays || 0) - (a.plays || 0)\<close>.\<close>

definition mostPlayedCompare :: "Track \<Rightarrow> Track \<Rightarrow> NumberField" where
  "mostPlayedCompare a b = jsSub (orZero (plays b)) (orZero (plays a))"

subsection \<open>Export and import\<close>

text \<open>
  The document of an export. After \<open>JSON.parse\<close> the members \<open>tracks\<close> and
  \<open>playlists\<close> may be missing (\<open>None\<close>).
\<close>

record ExportData =
  dataTracks :: "Track list option"
  dataPlaylists :: "Playlist list option"
  exportDate :: DateField
  version :: string

text \<open>
  \<open>JSON.parse(JSON.stringify(x))\<close>: a valid \<open>Date\<close> comes back as its ISO string, an
  invalid one as \<open>null\<close>; a number that is not finite comes back as \<open>null\<close>; strings,
  finite numbers, booleans, \<open>null\<close> and arrays come back as they were, and a member that
  is \<open>undefined\<close> is left out and reads as \<open>undefined\<close> again.
\<close>

fun jsonDate :: "DateField \<Rightarrow> DateField" where
  "jsonDate (DateObj ms) = IsoString ms"
| "jsonDate InvalidDate = DateNull"
| "jsonDate (IsoString ms) = IsoString ms"
| "jsonDate DateNull = DateNull"

fun jsonNumber :: "NumberField \<Rightarrow> NumberField" where
  "jsonNumber (Num r) = Num r"
| "jsonNumber PosInf = Null"
| "jsonNumber NegInf = Null"
| "jsonNumber NaN = Null"
| "jsonNumber Null = Null"

definition jsonTrack :: "Track \<Rightarrow> Track" where
  "jsonTrack t =
     t\<lparr> duration := jsonNumber (duration t),
        addedDate := jsonDate (addedDate t),
        fileSize := jsonNumber (fileSize t),
        plays := jsonNumber (plays t),
        likes := jsonNumber (likes t) \<rparr>"

definition jsonPlaylist :: "Playlist \<Rightarrow> Playlist" where
  "jsonPlaylist p = p\<lparr> tracks := map jsonTrack (tracks p), createdDate := jsonDate (createdDate p) \<rparr>"

definition jsonData :: "ExportData \<Rightarrow> ExportData" where
  "jsonData d =
     d\<lparr> dataTracks := map_option (map jsonTrack) (dataTracks d),
        dataPlaylists := map_option (map jsonPlaylist) (dataPlaylists d),
        exportDate := jsonDate (exportDate d) \<rparr>"

text \<open>
  The text of a file or blob, given by what \<open>JSON.parse\<close> makes of it: a document, or
  a \<open>SyntaxError\<close>.
\<close>

datatype FileText = Json ExportData | Unparsable

text \<open>\<open>now\<close> is the instant \<open>new Date()\<close> reads.\<close>

definition exportData ::
  "Outcome \<Rightarrow> Outcome \<Rightarrow> int \<Rightarrow> StorageService
     \<Rightarrow> (JsError + FileText) \<times> StorageService" where
  "exportData tracksReq playlistsReq now st =
     (case getAllTracks tracksReq st of
        (Inl e, st1) \<Rightarrow> (Inl e, st1)
      | (Inr ts, st1) \<Rightarrow>
          (case getAllPlaylists playlistsReq st1 of
             (Inl e, st2) \<Rightarrow> (Inl e, st2)
           | (Inr ps, st2) \<Rightarrow>
               (Inr (Json (jsonData \<lparr> dataTracks = Some ts, dataPlaylists = Some ps,
                                      exportDate = DateObj now, version = ''1.0'' \<rparr>)),
                st2)))"

text \<open>The two loops \<open>for (const x of ...) await this.save...(x)\<close>: a rejected save ends the loop.\<close>

fun saveTracks ::
  "(Track \<Rightarrow> Outcome) \<Rightarrow> Track list \<Rightarrow> StorageService \<Rightarrow> (JsError + unit) \<times> StorageService" where
  "saveTracks req [] st = (Inr (), st)"
| "saveTracks req (t # ts) st =
     (case saveTrack req t st of
        (Inl e, st1) \<Rightarrow> (Inl e, st1)
      | (Inr _, st1) \<Rightarrow> saveTracks req ts st1)"

fun savePlaylists ::
  "(Playlist \<Rightarrow> Outcome) \<Rightarrow> Playlist list \<Rightarrow> StorageService
     \<Rightarrow> (JsError + unit) \<times> StorageService" where
  "savePlaylists req [] st = (Inr (), st)"
| "savePlaylists req (p # ps) st =
     (case savePlaylist req p st of
        (Inl e, st1) \<Rightarrow> (Inl e, st1)
      | (Inr _, st1) \<Rightarrow> savePlaylists req ps st1)"

definition importData ::
  "(Track \<Rightarrow> Outcome) \<Rightarrow> (Playlist \<Rightarrow> Outcome) \<Rightarrow> FileText \<Rightarrow> StorageService
     \<Rightarrow> (JsError + unit) \<times> StorageService" where
  "importData trackReq playlistReq file st =
     (case file of
        Unparsable \<Rightarrow> (Inl (SyntaxError ''Unexpected token''), st)
      | Json d \<Rightarrow>
          (case (case dataTracks d of
                   None \<Rightarrow> (Inr (), st)
                 | Some ts \<Rightarrow> saveTracks trackReq ts st) of
             (Inl e, st1) \<Rightarrow> (Inl e, st1)
           | (Inr _, st1) \<Rightarrow>
               (case dataPlaylists d of
                  None \<Rightarrow> (Inr (), st1)
                | Some ps \<Rightarrow> savePlaylists playlistReq ps st1)))"

section \<open>Library index (track.service.ts)\<close>

datatype SortBy = TITLE | ARTIST | DATE | DURATION | PLAYS | LIKES

datatype SortOrder = ASC | DESC

datatype LoadingState = idle | loading | success | error

record TrackService =
  tracksSignal :: "Track list"
  loadingState :: LoadingState
  errorMessage :: string
  currentFilter :: string
  sortBySignal :: SortBy
  sortOrderSignal :: SortOrder
  storageService :: StorageService

text \<open>
  \<open>toLowerCase\<close> on the letters \<open>A\<close> to \<open>Z\<close>; a \<open>char\<close> is a byte, and the bytes
  outside ASCII are left as they are.
\<close>

definition lowerChar :: "char \<Rightarrow> char" where
  "lowerChar c =
     (let n = (of_char c :: nat) in if 65 \<le> n \<and> n \<le> 90 then char_of (n + 32) else c)"

definition toLowerCase :: "string \<Rightarrow> string" where
  "toLowerCase str = map lowerChar str"

text \<open>
  \<open>new Date(x).getTime()\<close>: the instant of a valid \<open>Date\<close> or of the ISO string of
  one, \<open>NaN\<close> for an invalid \<open>Date\<close>, and \<open>0\<close> for \<open>null\<close>.
\<close>

fun getTime :: "DateField \<Rightarrow> NumberField" where
  "getTime (DateObj ms) = Num (real_of_int ms)"
| "getTime InvalidDate = NaN"
| "getTime (IsoString ms) = Num (real_of_int ms)"
| "getTime DateNull = Num 0"

text \<open>
  The values \<open>aValue\<close> and \<open>bValue\<close> of the comparator are strings or numbers;
  both come from the same key, so they are of one kind, and the comparisons order
  strings by their code units and numbers by size.
\<close>

datatype SortValue = StrVal string | NumVal NumberField

fun sortValue :: "SortBy \<Rightarrow> Track \<Rightarrow> SortValue" where
  "sortValue TITLE t = StrVal (toLowerCase (title t))"
| "sortValue ARTIST t = StrVal (toLowerCase (artist t))"
| "sortValue DATE t = NumVal (getTime (addedDate t))"
| "sortValue DURATION t = NumVal (duration t)"
| "sortValue PLAYS t = NumVal (orZero (plays t))"
| "sortValue LIKES t = NumVal (orZero (likes t))"

fun gtValue :: "SortValue \<Rightarrow> SortValue \<Rightarrow> bool" where
  "gtValue (StrVal a) (StrVal b) = (a > b)"
| "gtValue (NumVal a) (NumVal b) = numLess b a"
| "gtValue _ _ = False"

fun ltValue :: "SortValue \<Rightarrow> SortValue \<Rightarrow> bool" where
  "ltValue (StrVal a) (StrVal b) = (a < b)"
| "ltValue (NumVal a) (NumVal b) = numLess a b"
| "ltValue _ _ = False"

text \<open>
  The function handed to \<open>filtered.sort\<close>. The \<open>default\<close> branch of its
  \<open>switch\<close> is never taken: \<open>SortBy\<close> has the six keys only.
\<close>

definition compareTracks :: "SortBy \<Rightarrow> SortOrder \<Rightarrow> Track \<Rightarrow> Track \<Rightarrow> int" where
  "compareTracks sortBy sortOrder a b =
     (let aValue = sortValue sortBy a; bValue = sortValue sortBy b
      in case sortOrder of
           ASC \<Rightarrow> (if gtValue aValue bValue then 1 else - 1)
         | DESC \<Rightarrow> (if ltValue aValue bValue then 1 else - 1))"

text \<open>
  The computed \<open>tracks\<close>. \<open>Array.prototype.sort\<close> belongs to the engine that runs the
  program, so the projection takes it as the argument \<open>arraySort\<close>.
\<close>

definition tracksView ::
  "((Track \<Rightarrow> Track \<Rightarrow> int) \<Rightarrow> Track list \<Rightarrow> Track list) \<Rightarrow> TrackService \<Rightarrow> Track list" where
  "tracksView arraySort s =
     (let fltr = currentFilter s;
          filtered = (if fltr \<noteq> ''all''
                      then filter (\<lambda>track. categoryValue (category track) = fltr) (tracksSignal s)
                      else tracksSignal s)
      in arraySort (compareTracks (sortBySignal s) (sortOrderSignal s)) filtered)"

text \<open>
  \<open>error instanceof Error ? error.message : 'Erreur inconnue'\<close>: every \<open>JsError\<close>
  is an \<open>Error\<close>.
\<close>

definition errorText :: "JsError \<Rightarrow> string" where
  "errorText e = message e"

definition TrackService_deleteTrack ::
  "Outcome \<Rightarrow> string \<Rightarrow> TrackService \<Rightarrow> (JsError + unit) \<times> TrackService" where
  "TrackService_deleteTrack req k s =
     (let s1 = s\<lparr> loadingState := loading \<rparr>
      in case StorageService_deleteTrack req k (storageService s1) of
           (Inr _, st) \<Rightarrow>
             (Inr (),
              s1\<lparr> storageService := st,
                  tracksSignal := filter (\<lambda>t. trackId t \<noteq> k) (tracksSignal s1),
                  loadingState := success \<rparr>)
         | (Inl e, st) \<Rightarrow>
             (Inl e,
              s1\<lparr> storageService := st, errorMessage := errorText e, loadingState := error \<rparr>))"

section \<open>The queue invariant and sample states\<close>

text \<open>
  The index is \<open>-1\<close>, or a position of the queue, or \<open>0\<close> on an empty queue.
\<close>

definition queueInv :: "AudioPlayerService \<Rightarrow> bool" where
  "queueInv s =
     (currentIndexSignal s = - 1
      \<or> (0 \<le> currentIndexSignal s \<and> currentIndexSignal s < int (length (queueSignal s)))
      \<or> (queueSignal s = [] \<and> currentIndexSignal s = 0))"

text \<open>
  A state in the middle of playback: three tracks queued, the one at \<open>ci\<close> playing at
  position \<open>t\<close>.
\<close>

definition sampleState :: "int \<Rightarrow> real \<Rightarrow> bool \<Rightarrow> AudioPlayerService" where
  "sampleState ci t rep =
     initialPlayer
       \<lparr> audioElement := \<lparr> src = ''blob:x'', elemCurrentTime = t, elemDuration = Some 180,
                            paused = False \<rparr>,
         currentTrackSignal := at_index [trackA, trackB, trackC] ci,
         statusSignal := Playing,
         currentTimeSignal := t,
         queueSignal := [trackA, trackB, trackC],
         currentIndexSignal := ci,
         isRepeatingSignal := rep,
         originalQueueSignal := [trackA, trackB, trackC] \<rparr>"

text \<open>
  \<open>play(track)\<close> up to its first \<open>await\<close>: the track is loaded, whether or not it
  is in the queue.
\<close>

definition playTrack :: "Track \<Rightarrow> AudioPlayerService \<Rightarrow> AudioPlayerService" where
  "playTrack track s = loadTrack (Some track) s"

text \<open>A track played from outside the queue, and a queue one track was removed from.\<close>

definition offQueueState :: AudioPlayerService where
  "offQueueState = playTrack trackC (setQueue (\<lambda>_. 0) [trackA, trackB] 0 initialPlayer)"

definition queueABC :: AudioPlayerService where
  "queueABC = setQueue (\<lambda>_. 0) [trackA, trackB, trackC] 0 initialPlayer"

definition removedState :: AudioPlayerService where
  "removedState = calls [SetQueue (\<lambda>_. 0) [trackA, trackB] 0, RemoveFromQueue 1] initialPlayer"

section \<open>Sample stores and the round trip\<close>

text \<open>
  An export with every request granted, then an import of the exported text into the
  empty store with every request granted.
\<close>

definition exportThenImport :: "int \<Rightarrow> StorageService \<Rightarrow> JsError + StorageService" where
  "exportThenImport now st =
     (case exportData Succeeds Succeeds now st of
        (Inl e, _) \<Rightarrow> Inl e
      | (Inr file, _) \<Rightarrow>
          (case importData (\<lambda>_. Succeeds) (\<lambda>_. Succeeds) file emptyStorage of
             (Inl e, _) \<Rightarrow> Inl e
           | (Inr _, st') \<Rightarrow> Inr st'))"

definition samplePlaylist :: Playlist where
  "samplePlaylist =
     \<lparr> playlistId = ''p1'', name = ''Mix'', playlistDescription = None, tracks = [trackA],
       playlistCoverImage = None, createdDate = DateObj 5, isPublic = False \<rparr>"

definition samplePlaylist2 :: Playlist where
  "samplePlaylist2 = samplePlaylist\<lparr> playlistId := ''p2'', name := ''Other'' \<rparr>"

text \<open>A track of a stream without end: the device reports the duration \<open>Infinity\<close>.\<close>

definition trackLive :: Track where
  "trackLive = (mkTrack ''s'' ''Live'')\<lparr> duration := PosInf \<rparr>"

definition sampleStore :: StorageService where
  "sampleStore =
     \<lparr> tracksStore = [trackA, trackB, trackLive], playlistsStore = [samplePlaylist],
       storageError = None \<rparr>"

text \<open>A track whose like count is \<open>2 ^ 53\<close>, and a store that holds it.\<close>

definition trackMax :: Track where
  "trackMax = (mkTrack ''m'' ''M'')\<lparr> likes := Num (2 ^ 53) \<rparr>"

definition maxStore :: StorageService where
  "maxStore = \<lparr> tracksStore = [trackMax], playlistsStore = [], storageError = None \<rparr>"

text \<open>
  A store that is full when the track \<open>b\<close> arrives, and one that finds no valid key in
  the playlist \<open>p2\<close>.
\<close>

definition rejectB :: "Track \<Rightarrow> Outcome" where
  "rejectB t =
     (if trackId t = ''b'' then Fails (DOMException ''QuotaExceededError'') else Succeeds)"

definition rejectP2 :: "Playlist \<Rightarrow> Outcome" where
  "rejectP2 p = (if playlistId p = ''p2'' then Throws (DOMException ''DataError'') else Succeeds)"

definition sampleImport :: FileText where
  "sampleImport =
     Json \<lparr> dataTracks = Some [jsonTrack trackA, jsonTrack trackB, jsonTrack trackC],
            dataPlaylists = Some [jsonPlaylist samplePlaylist, jsonPlaylist samplePlaylist2],
            exportDate = IsoString 0, version = ''1.0'' \<rparr>"

definition trackA2 :: Track where "trackA2 = mkTrack ''d'' ''A''"

definition libraryStore :: StorageService where
  "libraryStore =
     \<lparr> tracksStore = [trackA, trackB], playlistsStore = [samplePlaylist], storageError = None \<rparr>"

definition sampleLibrary :: TrackService where
  "sampleLibrary =
     \<lparr> tracksSignal = [trackA, trackB], loadingState = success, errorMessage = [],
       currentFilter = ''all'', sortBySignal = DATE, sortOrderSignal = DESC,
       storageService = libraryStore \<rparr>"

text \<open>\<open>Number.isFinite\<close>.\<close>

definition isFiniteNumber :: "NumberField \<Rightarrow> bool" where
  "isFiniteNumber x = (case x of Num _ \<Rightarrow> True | _ \<Rightarrow> False)"

section \<open>Properties of the playback engine\<close>

lemma length_filterIndexNot_aux:
  "length (filter (\<lambda>(i, _). int i \<noteq> index) (enumerate n xs)) =
     (if int n \<le> index \<and> index < int n + int (length xs) then length xs - 1 else length xs)"
proof (induction xs arbitrary: n)
  case Nil
  then show ?case by simp
next
  case (Cons x xs)
  show ?case using Cons.IH [of "Suc n"] by (auto split: if_splits)
qed

lemma length_filterIndexNot:
  "0 \<le> index \<Longrightarrow> index < int (length xs) \<Longrightarrow>
     length (filterIndexNot index xs) = length xs - 1"
  using length_filterIndexNot_aux [of index 0 xs] by (simp add: filterIndexNot_def)

text \<open>
  C9. \<open>removeFromQueue\<close> with an index outside the queue (negative, or at or beyond
  its length) returns the state as it was: queue, current index, current track, status
  and every other field are unchanged, and the function has no failing branch.
\<close>

theorem removeFromQueue_out_of_range:
  "index < 0 \<or> index \<ge> int (length (queueSignal s)) \<Longrightarrow> removeFromQueue index s = s"
  by (auto simp: removeFromQueue_def)

theorem removeFromQueue_out_of_range_witness:
  "(2 < (0::int) \<or> 2 \<ge> int (length (queueSignal (setQueue (\<lambda>_. 0) [trackA, trackB] 0 initialPlayer))))
   \<and> removeFromQueue 2 (setQueue (\<lambda>_. 0) [trackA, trackB] 0 initialPlayer)
       = setQueue (\<lambda>_. 0) [trackA, trackB] 0 initialPlayer"
  using removeFromQueue_out_of_range [of 2 "setQueue (\<lambda>_. 0) [trackA, trackB] 0 initialPlayer"]
  by (simp add: setQueue_def initialPlayer_def loadTrack_def at_index_def Let_def)

subsection \<open>The queue and its index\<close>

lemma length_slice_parts:
  "length (slice xs 0 k) + length (sliceFrom xs k) = length xs"
  by (auto simp: slice_def sliceFrom_def Let_def min_def max_def)

lemma length_shuffleLoop [simp]: "length (shuffleLoop rnd i xs) = length xs"
  by (induction rnd i xs rule: shuffleLoop.induct) (simp_all add: swap_def Let_def)

lemma queueInv_alt:
  "queueInv s \<longleftrightarrow>
     (let ci = currentIndexSignal s; n = int (length (queueSignal s))
      in ci = - 1 \<or> (0 \<le> ci \<and> ci < n) \<or> (n = 0 \<and> ci = 0))"
  by (simp add: queueInv_def Let_def)

lemma queueInv_initial: "queueInv initialPlayer"
  by (simp add: queueInv_def initialPlayer_def)

lemma queueInv_addToQueue: "queueInv s \<Longrightarrow> queueInv (addToQueue t pn s)"
  using length_slice_parts [of "queueSignal s" "currentIndexSignal s + 1"]
  by (auto simp: queueInv_def addToQueue_def Let_def)

lemma queueInv_removeFromQueue: "queueInv s \<Longrightarrow> queueInv (removeFromQueue i s)"
proof (cases "0 \<le> i \<and> i < int (length (queueSignal s))")
  case False
  assume "queueInv s"
  with False show ?thesis by (auto simp: removeFromQueue_def)
next
  case True
  assume inv: "queueInv s"
  define ci where "ci = currentIndexSignal s"
  define n where "n = int (length (queueSignal s))"
  define s' where "s' = removeFromQueue i s"
  have len: "int (length (queueSignal s')) = n - 1"
    using True length_filterIndexNot [of i "queueSignal s"]
    by (simp add: s'_def n_def removeFromQueue_def Let_def)
  have idx: "currentIndexSignal s' = (if i \<le> ci then max 0 (ci - 1) else ci)"
    using True by (simp add: s'_def ci_def removeFromQueue_def Let_def)
  have "ci = - 1 \<or> (0 \<le> ci \<and> ci < n) \<or> (n = 0 \<and> ci = 0)"
    using inv unfolding queueInv_alt ci_def n_def Let_def .
  with True have "(if i \<le> ci then max 0 (ci - 1) else ci) = - 1
      \<or> (0 \<le> (if i \<le> ci then max 0 (ci - 1) else ci)
           \<and> (if i \<le> ci then max 0 (ci - 1) else ci) < n - 1)
      \<or> (n - 1 = 0 \<and> (if i \<le> ci then max 0 (ci - 1) else ci) = 0)"
    unfolding n_def by (auto split: if_splits)
  then have "queueInv s'"
    unfolding queueInv_alt Let_def len idx .
  then show ?thesis by (simp add: s'_def)
qed

lemma queueSignal_loadTrack [simp]: "queueSignal (loadTrack t s) = queueSignal s"
  by (simp add: loadTrack_def Let_def split: option.splits)

lemma length_queue_shuffleQueue [simp]:
  "length (queueSignal (shuffleQueue rnd ts s)) = length ts"
  by (simp add: shuffleQueue_def Let_def split: option.splits)

lemma queueInv_setQueue:
  "0 \<le> k \<Longrightarrow> k < int (length ts) \<Longrightarrow> queueInv (setQueue rnd ts k s)"
  by (auto simp: queueInv_def setQueue_def Let_def)

lemma queueInv_call: "startInRange c \<Longrightarrow> queueInv s \<Longrightarrow> queueInv (call c s)"
  by (cases c) (simp_all add: queueInv_setQueue queueInv_addToQueue queueInv_removeFromQueue)

lemma queueInv_calls: "list_all startInRange cs \<Longrightarrow> queueInv s \<Longrightarrow> queueInv (calls cs s)"
  by (induction cs arbitrary: s) (simp_all add: queueInv_call)

lemmas sample_defs = trackA_def trackB_def trackC_def mkTrack_def initialPlayer_def
  setQueue_def addToQueue_def removeFromQueue_def loadTrack_def at_index_def
  slice_def sliceFrom_def filterIndexNot_def

text \<open>
  C1, as the code has it. After any sequence of \<open>setQueue\<close>, \<open>addToQueue\<close> and
  \<open>removeFromQueue\<close> calls from the initial state, where every \<open>setQueue\<close> is given a
  start index that is a position of its track list, the current index is at least \<open>-1\<close>,
  and on a non-empty queue it is \<open>-1\<close> or a position of the queue. A non-empty queue with
  index \<open>-1\<close> is a state the engine reaches: \<open>addToQueue\<close> never selects a track.
\<close>

theorem queue_invariant_amended:
  "list_all startInRange cs \<Longrightarrow>
     - 1 \<le> currentIndexSignal (calls cs initialPlayer)
     \<and> (queueSignal (calls cs initialPlayer) \<noteq> [] \<longrightarrow>
          currentIndexSignal (calls cs initialPlayer)
            < int (length (queueSignal (calls cs initialPlayer))))"
  using queueInv_calls [OF _ queueInv_initial, of cs]
  by (auto simp: queueInv_def)

lemma sample_run:
  "currentIndexSignal (calls sampleCalls initialPlayer) = 0 \<and>
   map trackId (queueSignal (calls sampleCalls initialPlayer)) = [''b'', ''c'']"
  by (simp add: sampleCalls_def sample_defs Let_def)

theorem queue_invariant_amended_witness:
  "list_all startInRange sampleCalls
   \<and> - 1 \<le> currentIndexSignal (calls sampleCalls initialPlayer)
   \<and> queueSignal (calls sampleCalls initialPlayer) \<noteq> []
   \<and> currentIndexSignal (calls sampleCalls initialPlayer)
         < int (length (queueSignal (calls sampleCalls initialPlayer)))"
proof -
  have ok: "list_all startInRange sampleCalls"
    by (simp add: sampleCalls_def)
  have ne: "queueSignal (calls sampleCalls initialPlayer) \<noteq> []"
    using sample_run by auto
  show ?thesis
    using queue_invariant_amended [OF ok] ok ne by simp
qed

text \<open>
  The claim as it is written fails after one \<open>addToQueue\<close> on the initial state: the queue
  holds a track and the index is still \<open>-1\<close>.
\<close>

theorem queue_invariant_counterexample:
  "\<not> ((currentIndexSignal (calls [AddToQueue trackA False] initialPlayer) = - 1
          \<longleftrightarrow> length (queueSignal (calls [AddToQueue trackA False] initialPlayer)) = 0)
       \<and> (currentIndexSignal (calls [AddToQueue trackA False] initialPlayer) \<noteq> - 1 \<longrightarrow>
            0 \<le> currentIndexSignal (calls [AddToQueue trackA False] initialPlayer)
            \<and> currentIndexSignal (calls [AddToQueue trackA False] initialPlayer)
                < int (length (queueSignal (calls [AddToQueue trackA False] initialPlayer)))))"
  by (simp add: addToQueue_def initialPlayer_def Let_def)

text \<open>
  \<open>setQueue\<close> with a start index at or beyond the length of its list replaces the queue
  and leaves the index as it was.
\<close>

lemma setQueue_start_beyond_keeps_index:
  "length (queueSignal (calls [SetQueue (\<lambda>_. 0) [trackA, trackB, trackC] 2,
                               SetQueue (\<lambda>_. 0) [trackA] 5] initialPlayer)) = 1
   \<and> currentIndexSignal (calls [SetQueue (\<lambda>_. 0) [trackA, trackB, trackC] 2,
                                SetQueue (\<lambda>_. 0) [trackA] 5] initialPlayer) = 2"
  by (simp add: sample_defs Let_def)

text \<open>Removing the only track of the queue leaves an empty queue with index \<open>0\<close>.\<close>

lemma removeFromQueue_empties_queue_index_0:
  "queueSignal (calls [SetQueue (\<lambda>_. 0) [trackA] 0, RemoveFromQueue 0] initialPlayer) = []
   \<and> currentIndexSignal (calls [SetQueue (\<lambda>_. 0) [trackA] 0, RemoveFromQueue 0] initialPlayer) = 0"
  by (simp add: sample_defs Let_def)

subsection \<open>Previous track\<close>

text \<open>
  C2, as the code has it. \<open>previous\<close> seeks to \<open>0\<close> when more than three seconds
  have elapsed and the device knows the duration of its media, leaving track and index as
  they are; without a duration it does nothing. With at most three seconds elapsed and a
  current index above \<open>0\<close> it lowers the index by one and loads what the queue has at
  the new index: when that is a position of the queue, the track there becomes current, the
  status is \<open>loading\<close> and playback is asked for; when it is beyond the queue, the load
  fails, leaving no current track, the status \<open>stopped\<close> and the error of the load.
  With at most three seconds elapsed and no earlier position it changes nothing: the
  position is not reset.
\<close>

theorem previous_amended:
  "(currentTimeSignal s > 3 \<and> elemDuration (audioElement s) = Some d \<and> d \<noteq> 0 \<longrightarrow>
      previous s = s\<lparr> audioElement := (audioElement s)\<lparr> elemCurrentTime := 0 \<rparr>,
                        currentTimeSignal := 0 \<rparr>)
   \<and> (currentTimeSignal s > 3
        \<and> (elemDuration (audioElement s) = None \<or> elemDuration (audioElement s) = Some 0) \<longrightarrow>
        previous s = s)
   \<and> (currentTimeSignal s \<le> 3 \<and> 0 < currentIndexSignal s \<longrightarrow>
        currentIndexSignal (previous s) = currentIndexSignal s - 1
        \<and> queueSignal (previous s) = queueSignal s
        \<and> currentTrackSignal (previous s) = at_index (queueSignal s) (currentIndexSignal s - 1)
        \<and> (currentIndexSignal s - 1 < int (length (queueSignal s)) \<longrightarrow>
             currentTrackSignal (previous s)
               = Some (queueSignal s ! nat (currentIndexSignal s - 1))
             \<and> statusSignal (previous s) = Loading
             \<and> \<not> paused (audioElement (previous s)))
        \<and> (int (length (queueSignal s)) \<le> currentIndexSignal s - 1 \<longrightarrow>
             currentTrackSignal (previous s) = None
             \<and> statusSignal (previous s) = Stopped
             \<and> errorSignal (previous s) = ''Impossible de charger la piste''))
   \<and> (currentTimeSignal s \<le> 3 \<and> currentIndexSignal s \<le> 0 \<longrightarrow> previous s = s)"
proof (intro conjI impI)
  assume "3 < currentTimeSignal s \<and> elemDuration (audioElement s) = Some d \<and> d \<noteq> 0"
  then show "previous s = s\<lparr> audioElement := (audioElement s)\<lparr> elemCurrentTime := 0 \<rparr>,
                        currentTimeSignal := 0 \<rparr>"
    by (simp add: previous_def seek_def durationC_def Let_def)
next
  assume "3 < currentTimeSignal s
     \<and> (elemDuration (audioElement s) = None \<or> elemDuration (audioElement s) = Some 0)"
  then show "previous s = s"
    by (auto simp: previous_def seek_def Let_def)
next
  assume "currentTimeSignal s \<le> 3 \<and> currentIndexSignal s \<le> 0"
  then show "previous s = s"
    by (simp add: previous_def Let_def)
next
  assume h: "currentTimeSignal s \<le> 3 \<and> 0 < currentIndexSignal s"
  let ?t = "at_index (queueSignal s) (currentIndexSignal s - 1)"
  have p: "previous s = play ((loadTrack ?t s)\<lparr> currentIndexSignal := currentIndexSignal s - 1 \<rparr>)"
    using h by (simp add: previous_def Let_def)
  show "currentIndexSignal (previous s) = currentIndexSignal s - 1"
    unfolding p by (simp add: play_def split: option.splits)
  show "queueSignal (previous s) = queueSignal s"
    unfolding p by (simp add: play_def split: option.splits)
  show "currentTrackSignal (previous s) = ?t"
    unfolding p by (simp add: play_def loadTrack_def Let_def split: option.splits)
  {
    assume "currentIndexSignal s - 1 < int (length (queueSignal s))"
    with h have t: "?t = Some (queueSignal s ! nat (currentIndexSignal s - 1))"
      by (simp add: at_index_def)
    show "currentTrackSignal (previous s) = Some (queueSignal s ! nat (currentIndexSignal s - 1))"
      unfolding p t by (simp add: play_def loadTrack_def Let_def)
    show "statusSignal (previous s) = Loading"
      unfolding p t by (simp add: play_def loadTrack_def Let_def)
    show "\<not> paused (audioElement (previous s))"
      unfolding p t by (simp add: play_def loadTrack_def Let_def)
  }
  {
    assume "int (length (queueSignal s)) \<le> currentIndexSignal s - 1"
    then have t: "?t = None"
      by (simp add: at_index_def)
    show "currentTrackSignal (previous s) = None"
      unfolding p t by (simp add: play_def loadTrack_def Let_def)
    show "statusSignal (previous s) = Stopped"
      unfolding p t by (simp add: play_def loadTrack_def Let_def)
    show "errorSignal (previous s) = ''Impossible de charger la piste''"
      unfolding p t by (simp add: play_def loadTrack_def Let_def)
  }
qed

lemmas state_defs = sampleState_def initialPlayer_def at_index_def trackA_def trackB_def
  trackC_def mkTrack_def

theorem previous_amended_witness:
  "currentTimeSignal (previous (sampleState 1 5 False)) = 0
   \<and> currentIndexSignal (previous (sampleState 1 5 False)) = 1
   \<and> currentTrackSignal (previous (sampleState 1 2 False)) = Some trackA
   \<and> currentIndexSignal (previous (sampleState 1 2 False)) = 0
   \<and> statusSignal (previous (sampleState 1 2 False)) = Loading
   \<and> currentTrackSignal (previous (sampleState 5 2 False)) = None
   \<and> currentIndexSignal (previous (sampleState 5 2 False)) = 4
   \<and> statusSignal (previous (sampleState 5 2 False)) = Stopped
   \<and> previous (sampleState 0 2 False) = sampleState 0 2 False"
proof -
  have a: "currentTimeSignal (sampleState 1 5 False) > 3
           \<and> elemDuration (audioElement (sampleState 1 5 False)) = Some 180 \<and> (180::real) \<noteq> 0"
    by (simp add: state_defs)
  have b: "currentTimeSignal (sampleState 1 2 False) \<le> 3 \<and> 0 < currentIndexSignal (sampleState 1 2 False)"
    and b': "currentIndexSignal (sampleState 1 2 False) - 1
               < int (length (queueSignal (sampleState 1 2 False)))"
    by (simp_all add: state_defs)
  have c: "currentTimeSignal (sampleState 0 2 False) \<le> 3 \<and> currentIndexSignal (sampleState 0 2 False) \<le> 0"
    by (simp add: state_defs)
  have e: "currentTimeSignal (sampleState 5 2 False) \<le> 3 \<and> 0 < currentIndexSignal (sampleState 5 2 False)"
    and e': "int (length (queueSignal (sampleState 5 2 False)))
               \<le> currentIndexSignal (sampleState 5 2 False) - 1"
    by (simp_all add: state_defs)
  have qa: "currentIndexSignal (sampleState 1 5 False) = 1"
    and qb: "queueSignal (sampleState 1 2 False) ! nat (currentIndexSignal (sampleState 1 2 False) - 1) = trackA"
    and qc: "currentIndexSignal (sampleState 1 2 False) - 1 = 0"
    and qe: "currentIndexSignal (sampleState 5 2 False) - 1 = 4"
    by (simp_all add: sampleState_def initialPlayer_def)
  from previous_amended [of "sampleState 1 5 False" 180] a
  have 1: "previous (sampleState 1 5 False) =
      (sampleState 1 5 False)\<lparr> audioElement := (audioElement (sampleState 1 5 False))\<lparr> elemCurrentTime := 0 \<rparr>,
                        currentTimeSignal := 0 \<rparr>" by blast
  from previous_amended [of "sampleState 1 2 False" 180] b b'
  have "currentTrackSignal (previous (sampleState 1 2 False))
          = Some (queueSignal (sampleState 1 2 False) ! nat (currentIndexSignal (sampleState 1 2 False) - 1))
        \<and> currentIndexSignal (previous (sampleState 1 2 False))
          = currentIndexSignal (sampleState 1 2 False) - 1
        \<and> statusSignal (previous (sampleState 1 2 False)) = Loading"
    by blast
  then have 2: "currentTrackSignal (previous (sampleState 1 2 False)) = Some trackA
        \<and> currentIndexSignal (previous (sampleState 1 2 False)) = 0
        \<and> statusSignal (previous (sampleState 1 2 False)) = Loading"
    using qb qc by simp
  from previous_amended [of "sampleState 5 2 False" 180] e e'
  have "currentTrackSignal (previous (sampleState 5 2 False)) = None
        \<and> currentIndexSignal (previous (sampleState 5 2 False))
            = currentIndexSignal (sampleState 5 2 False) - 1
        \<and> statusSignal (previous (sampleState 5 2 False)) = Stopped"
    by blast
  then have 4: "currentTrackSignal (previous (sampleState 5 2 False)) = None
        \<and> currentIndexSignal (previous (sampleState 5 2 False)) = 4
        \<and> statusSignal (previous (sampleState 5 2 False)) = Stopped"
    using qe by simp
  from previous_amended [of "sampleState 0 2 False" 180] c
  have 3: "previous (sampleState 0 2 False) = sampleState 0 2 False" by blast
  show ?thesis using 1 2 3 4 qa by simp
qed

text \<open>
  At the first position with two seconds elapsed, \<open>previous\<close> leaves the position at
  two seconds: the track is not restarted.
\<close>

theorem previous_counterexample:
  "currentTrackSignal (sampleState 0 2 False) = Some trackA
   \<and> currentIndexSignal (sampleState 0 2 False) = 0
   \<and> currentTimeSignal (previous (sampleState 0 2 False)) \<noteq> 0"
  by (simp add: previous_def state_defs Let_def)

subsection \<open>End of a track\<close>




subsection \<open>Shuffle\<close>

lemma findIndex_ge: "- 1 \<le> findIndex p xs"
  by (induction xs) (auto simp: Let_def)

lemma findIndex_none: "findIndex p xs = - 1 \<longleftrightarrow> (\<forall>x\<in>set xs. \<not> p x)"
proof (induction xs)
  case Nil
  then show ?case by simp
next
  case (Cons x xs)
  then show ?case using findIndex_ge [of p xs] by (auto simp: Let_def)
qed

lemma findIndex_found:
  "findIndex p xs \<noteq> - 1 \<Longrightarrow>
     0 \<le> findIndex p xs \<and> findIndex p xs < int (length xs) \<and> p (xs ! nat (findIndex p xs))"
proof (induction xs)
  case Nil
  then show ?case by simp
next
  case (Cons x xs)
  show ?case
  proof (cases "p x")
    case True
    then show ?thesis by simp
  next
    case False
    with Cons.prems have ne: "findIndex p xs \<noteq> - 1" by (auto simp: Let_def)
    from Cons.IH [OF ne] have ih: "0 \<le> findIndex p xs" "findIndex p xs < int (length xs)"
      "p (xs ! nat (findIndex p xs))" by auto
    have "nat (findIndex p xs + 1) = Suc (nat (findIndex p xs))" using ih(1) by simp
    with False ne ih show ?thesis by (simp add: Let_def)
  qed
qed

lemma draw_in_range:
  assumes "0 \<le> r" "r < 1"
  shows "nat \<lfloor>r * (real (Suc i) + 1)\<rfloor> \<le> Suc i"
proof -
  have "r * (real (Suc i) + 1) < real (Suc i) + 1"
    using assms by (simp add: mult_less_cancel_right1)
  then have "\<lfloor>r * (real (Suc i) + 1)\<rfloor> < int (Suc i) + 1"
    by (simp add: floor_less_iff)
  then show ?thesis by simp
qed

lemma mset_swap_queue:
  "i < length xs \<Longrightarrow> j < length xs \<Longrightarrow> mset (swap i j xs) = mset xs"
  unfolding swap_def by (rule mset_swap)

lemma mset_shuffleLoop:
  "(\<forall>k. 0 \<le> rnd k \<and> rnd k < 1) \<Longrightarrow> i < length xs \<Longrightarrow> mset (shuffleLoop rnd i xs) = mset xs"
proof (induction rnd i xs rule: shuffleLoop.induct)
  case (1 rnd xs)
  then show ?case by simp
next
  case (2 rnd i xs)
  let ?j = "nat \<lfloor>rnd (Suc i) * (real (Suc i) + 1)\<rfloor>"
  have j: "?j < length xs"
    using draw_in_range [of "rnd (Suc i)" i] "2.prems" by (simp add: less_le_trans le_less_trans)
  have len: "i < length (swap (Suc i) ?j xs)"
    using "2.prems"(2) by (simp add: swap_def)
  have "mset (shuffleLoop rnd i (swap (Suc i) ?j xs)) = mset (swap (Suc i) ?j xs)"
    using "2.IH" [OF refl "2.prems"(1) len] .
  also have "\<dots> = mset xs"
    using mset_swap_queue [OF "2.prems"(2) j] .
  finally show ?case by (simp add: Let_def)
qed

lemma mset_shuffled:
  "(\<forall>k. 0 \<le> rnd k \<and> rnd k < 1) \<Longrightarrow> mset (shuffleLoop rnd (length xs - 1) xs) = mset xs"
  by (cases "xs = []") (simp_all add: mset_shuffleLoop)

lemma pointerId_found:
  assumes "trackId t \<in> trackId ` set q"
  shows "map_option trackId (at_index q (findIndex (\<lambda>x. trackId x = trackId t) q)) = Some (trackId t)"
proof -
  have "findIndex (\<lambda>x. trackId x = trackId t) q \<noteq> - 1"
    using assms by (auto simp: findIndex_none)
  from findIndex_found [OF this] show ?thesis by (simp add: at_index_def)
qed

lemma shuffleQueue_queue:
  "queueSignal (shuffleQueue rnd ts s) = shuffleLoop rnd (length ts - 1) ts"
  by (simp add: shuffleQueue_def Let_def split: option.splits)

lemma shuffleQueue_frame:
  "originalQueueSignal (shuffleQueue rnd ts s) = originalQueueSignal s"
  "currentTrackSignal (shuffleQueue rnd ts s) = currentTrackSignal s"
  "isShuffledSignal (shuffleQueue rnd ts s) = isShuffledSignal s"
  by (simp_all add: shuffleQueue_def Let_def split: option.splits)

lemma shuffleQueue_pointer:
  assumes "currentTrackSignal s = Some t" "trackId t \<in> trackId ` set (shuffleLoop rnd (length ts - 1) ts)"
  shows "pointerId (shuffleQueue rnd ts s) = Some (trackId t)"
proof -
  let ?sh = "shuffleLoop rnd (length ts - 1) ts"
  have ne: "findIndex (\<lambda>x. trackId x = trackId t) ?sh \<noteq> - 1"
    using assms(2) by (auto simp: findIndex_none)
  then have "shuffleQueue rnd ts s =
       s\<lparr> queueSignal := ?sh, currentIndexSignal := findIndex (\<lambda>x. trackId x = trackId t) ?sh \<rparr>"
    using assms(1) by (simp add: shuffleQueue_def Let_def)
  then show ?thesis
    using pointerId_found [OF assms(2)] by (simp add: pointerId_def)
qed

lemma toggleShuffle_on:
  "\<not> isShuffledSignal s \<Longrightarrow>
     toggleShuffle rnd s = shuffleQueue rnd (queueSignal s) (s\<lparr> isShuffledSignal := True \<rparr>)"
  by (simp add: toggleShuffle_def Let_def)

lemma toggleShuffle_off_queue:
  "isShuffledSignal s \<Longrightarrow> queueSignal (toggleShuffle rnd s) = originalQueueSignal s"
  by (simp add: toggleShuffle_def Let_def split: option.splits)

lemma toggleShuffle_off_pointer:
  assumes "isShuffledSignal s" "currentTrackSignal s = Some t"
    "trackId t \<in> trackId ` set (originalQueueSignal s)"
  shows "pointerId (toggleShuffle rnd s) = Some (trackId t)"
proof -
  let ?o = "originalQueueSignal s"
  have ne: "findIndex (\<lambda>x. trackId x = trackId t) ?o \<noteq> - 1"
    using assms(3) by (auto simp: findIndex_none)
  then have "toggleShuffle rnd s =
       s\<lparr> isShuffledSignal := False, queueSignal := ?o,
          currentIndexSignal := findIndex (\<lambda>x. trackId x = trackId t) ?o \<rparr>"
    using assms(1,2) by (simp add: toggleShuffle_def Let_def)
  then show ?thesis
    using pointerId_found [OF assms(3)] by (simp add: pointerId_def)
qed

lemma shuffleQueue_index_kept:
  assumes "\<forall>t. currentTrackSignal s = Some t \<longrightarrow>
             trackId t \<notin> trackId ` set (shuffleLoop rnd (length ts - 1) ts)"
  shows "currentIndexSignal (shuffleQueue rnd ts s) = currentIndexSignal s"
proof (cases "currentTrackSignal s")
  case None
  then show ?thesis by (simp add: shuffleQueue_def Let_def)
next
  case (Some t)
  with assms have "findIndex (\<lambda>x. trackId x = trackId t) (shuffleLoop rnd (length ts - 1) ts) = - 1"
    unfolding findIndex_none by (metis imageI)
  with Some show ?thesis by (simp add: shuffleQueue_def Let_def)
qed

lemma toggleShuffle_off_index_kept:
  assumes "isShuffledSignal s"
    and "\<forall>t. currentTrackSignal s = Some t \<longrightarrow> trackId t \<notin> trackId ` set (originalQueueSignal s)"
  shows "currentIndexSignal (toggleShuffle rnd s) = currentIndexSignal s"
proof (cases "currentTrackSignal s")
  case None
  with assms(1) show ?thesis by (simp add: toggleShuffle_def Let_def)
next
  case (Some t)
  with assms(2) have "findIndex (\<lambda>x. trackId x = trackId t) (originalQueueSignal s) = - 1"
    unfolding findIndex_none by (metis imageI)
  with Some assms(1) show ?thesis by (simp add: toggleShuffle_def Let_def)
qed

lemma slice_parts: "slice xs 0 k @ sliceFrom xs k = xs"
proof -
  define m where "m = (if k < 0 then max (int (length xs) + k) 0 else min k (int (length xs)))"
  have m: "0 \<le> m" "m \<le> int (length xs)" by (auto simp: m_def)
  have 1: "slice xs 0 k = take (nat m) xs"
    by (simp add: slice_def Let_def m_def)
  have 2: "sliceFrom xs k = drop (nat m) xs"
    using m by (simp add: slice_def sliceFrom_def Let_def m_def [symmetric])
  show ?thesis by (simp add: 1 2)
qed

lemma originalQueueSignal_loadTrack [simp]:
  "originalQueueSignal (loadTrack t s) = originalQueueSignal s"
  by (simp add: loadTrack_def Let_def split: option.splits)

lemma setQueue_same_tracks:
  assumes "\<forall>k. 0 \<le> rnd k \<and> rnd k < 1"
  shows "mset (originalQueueSignal (setQueue rnd ts k s)) = mset (queueSignal (setQueue rnd ts k s))"
  using mset_shuffled [OF assms, of ts]
  by (simp add: setQueue_def Let_def shuffleQueue_queue shuffleQueue_frame)

lemma addToQueue_same_tracks:
  assumes "mset (originalQueueSignal s) = mset (queueSignal s)"
  shows "mset (originalQueueSignal (addToQueue t pn s)) = mset (queueSignal (addToQueue t pn s))"
proof -
  let ?k = "currentIndexSignal s + 1"
  have "mset (slice (queueSignal s) 0 ?k @ [t] @ sliceFrom (queueSignal s) ?k)
          = mset (slice (queueSignal s) 0 ?k @ sliceFrom (queueSignal s) ?k) + {#t#}"
    by simp
  also have "\<dots> = mset (queueSignal s) + {#t#}"
    by (simp only: slice_parts)
  finally show ?thesis
    using assms by (simp add: addToQueue_def Let_def)
qed

text \<open>
  C3, as the code has it. Take a state with shuffle off whose original queue holds the same
  tracks as the live queue, and draws of \<open>Math.random\<close> in \<open>[0, 1)\<close>. Enabling
  shuffle permutes the live queue; disabling it again puts the original queue back, which
  has the ids of the queue before (and is that queue when the two were equal). When there is
  a current track and its id is in the queue, the index points at a track of that id after
  each toggle. When there is no current track, or its id is not in the queue, each toggle
  leaves the index where it was. The shuffle flag is on after the first toggle and off
  after the second. \<open>setQueue\<close> yields a state whose original queue holds the
  tracks of the live queue, and \<open>addToQueue\<close> keeps a state so.
\<close>

theorem toggleShuffle_roundtrip_amended:
  assumes off: "\<not> isShuffledSignal s"
    and draws: "\<forall>k. 0 \<le> rnd k \<and> rnd k < 1"
    and same: "mset (originalQueueSignal s) = mset (queueSignal s)"
  shows "isShuffledSignal (toggleShuffle rnd s)
    \<and> \<not> isShuffledSignal (toggleShuffle rnd' (toggleShuffle rnd s))
    \<and> mset (queueSignal (toggleShuffle rnd s)) = mset (queueSignal s)
    \<and> queueSignal (toggleShuffle rnd' (toggleShuffle rnd s)) = originalQueueSignal s
    \<and> trackId ` set (queueSignal (toggleShuffle rnd' (toggleShuffle rnd s)))
        = trackId ` set (queueSignal s)
    \<and> (originalQueueSignal s = queueSignal s \<longrightarrow>
         queueSignal (toggleShuffle rnd' (toggleShuffle rnd s)) = queueSignal s)
    \<and> (\<forall>t. currentTrackSignal s = Some t \<and> trackId t \<in> trackId ` set (queueSignal s) \<longrightarrow>
           pointerId (toggleShuffle rnd s) = Some (trackId t)
           \<and> pointerId (toggleShuffle rnd' (toggleShuffle rnd s)) = Some (trackId t))
    \<and> ((\<forall>t. currentTrackSignal s = Some t \<longrightarrow> trackId t \<notin> trackId ` set (queueSignal s)) \<longrightarrow>
         currentIndexSignal (toggleShuffle rnd s) = currentIndexSignal s
         \<and> currentIndexSignal (toggleShuffle rnd' (toggleShuffle rnd s)) = currentIndexSignal s)
    \<and> mset (originalQueueSignal (setQueue rnd ts k s'))
        = mset (queueSignal (setQueue rnd ts k s'))
    \<and> (mset (originalQueueSignal s') = mset (queueSignal s') \<longrightarrow>
         mset (originalQueueSignal (addToQueue tr pn s'))
           = mset (queueSignal (addToQueue tr pn s')))"
proof -
  let ?s1 = "toggleShuffle rnd s"
  let ?s2 = "toggleShuffle rnd' ?s1"
  let ?sh = "shuffleLoop rnd (length (queueSignal s) - 1) (queueSignal s)"
  have s1: "?s1 = shuffleQueue rnd (queueSignal s) (s\<lparr> isShuffledSignal := True \<rparr>)"
    using off by (rule toggleShuffle_on)
  have q1: "mset (queueSignal ?s1) = mset (queueSignal s)"
    unfolding s1 shuffleQueue_queue using draws by (rule mset_shuffled)
  have on1: "isShuffledSignal ?s1" and o1: "originalQueueSignal ?s1 = originalQueueSignal s"
    and c1: "currentTrackSignal ?s1 = currentTrackSignal s"
    unfolding s1 by (simp_all add: shuffleQueue_frame)
  have q2: "queueSignal ?s2 = originalQueueSignal s"
    using toggleShuffle_off_queue [OF on1] o1 by simp
  have off2: "\<not> isShuffledSignal ?s2"
    using on1 by (simp add: toggleShuffle_def Let_def split: option.splits)
  have set_eq: "set (originalQueueSignal s) = set (queueSignal s)"
    using same by (rule mset_eq_setD)
  have set_sh: "set ?sh = set (queueSignal s)"
    using mset_shuffled [OF draws, of "queueSignal s"] by (rule mset_eq_setD)
  have ids: "trackId ` set (queueSignal ?s2) = trackId ` set (queueSignal s)"
    using q2 set_eq by simp
  have ptr: "pointerId ?s1 = Some (trackId t) \<and> pointerId ?s2 = Some (trackId t)"
    if t: "currentTrackSignal s = Some t" and mem: "trackId t \<in> trackId ` set (queueSignal s)" for t
  proof
    from mem set_sh have "trackId t \<in> trackId ` set ?sh"
      by simp
    then show "pointerId ?s1 = Some (trackId t)"
      unfolding s1 using t by (intro shuffleQueue_pointer) simp_all
    have "trackId t \<in> trackId ` set (originalQueueSignal ?s1)"
      using mem set_eq o1 by simp
    then show "pointerId ?s2 = Some (trackId t)"
      using on1 c1 t by (intro toggleShuffle_off_pointer) simp_all
  qed
  have kept: "currentIndexSignal ?s1 = currentIndexSignal s
        \<and> currentIndexSignal ?s2 = currentIndexSignal s"
    if out: "\<forall>t. currentTrackSignal s = Some t \<longrightarrow> trackId t \<notin> trackId ` set (queueSignal s)"
  proof -
    have k1: "currentIndexSignal ?s1 = currentIndexSignal s"
      unfolding s1 using out set_sh by (subst shuffleQueue_index_kept) simp_all
    have "\<forall>t. currentTrackSignal ?s1 = Some t \<longrightarrow>
            trackId t \<notin> trackId ` set (originalQueueSignal ?s1)"
      using out c1 o1 set_eq by simp
    from toggleShuffle_off_index_kept [OF on1 this, of rnd'] k1
    show ?thesis by simp
  qed
  have add: "mset (originalQueueSignal (addToQueue tr pn s')) = mset (queueSignal (addToQueue tr pn s'))"
    if "mset (originalQueueSignal s') = mset (queueSignal s')"
    using that by (rule addToQueue_same_tracks)
  show ?thesis
    using on1 off2 q1 q2 ids ptr kept add setQueue_same_tracks [OF draws, of ts k s'] by simp
qed

lemmas shuffle_defs = toggleShuffle_def shuffleQueue_def swap_def pointerId_def playTrack_def

lemma queueABC_fields:
  "\<not> isShuffledSignal queueABC"
  "originalQueueSignal queueABC = [trackA, trackB, trackC]"
  "queueSignal queueABC = [trackA, trackB, trackC]"
  "currentTrackSignal queueABC = Some trackA"
  by (simp_all add: queueABC_def setQueue_def loadTrack_def at_index_def initialPlayer_def Let_def)

lemma offQueueState_fields:
  "\<not> isShuffledSignal offQueueState"
  "originalQueueSignal offQueueState = [trackA, trackB]"
  "queueSignal offQueueState = [trackA, trackB]"
  "currentTrackSignal offQueueState = Some trackC"
  "currentIndexSignal offQueueState = 0"
  by (simp_all add: offQueueState_def playTrack_def setQueue_def loadTrack_def at_index_def
      initialPlayer_def trackA_def trackB_def trackC_def mkTrack_def Let_def)

theorem toggleShuffle_roundtrip_amended_witness:
  "\<not> isShuffledSignal queueABC
   \<and> (\<forall>k. 0 \<le> (\<lambda>_. 0 :: real) k \<and> (\<lambda>_. 0 :: real) k < 1)
   \<and> mset (originalQueueSignal queueABC) = mset (queueSignal queueABC)
   \<and> queueSignal (toggleShuffle (\<lambda>_. 0) (toggleShuffle (\<lambda>_. 0) queueABC)) = [trackA, trackB, trackC]
   \<and> pointerId (toggleShuffle (\<lambda>_. 0) queueABC) = Some ''a''
   \<and> pointerId (toggleShuffle (\<lambda>_. 0) (toggleShuffle (\<lambda>_. 0) queueABC)) = Some ''a''
   \<and> currentIndexSignal (toggleShuffle (\<lambda>_. 0) offQueueState) = 0
   \<and> currentIndexSignal (toggleShuffle (\<lambda>_. 0) (toggleShuffle (\<lambda>_. 0) offQueueState)) = 0"
proof -
  have h1: "\<not> isShuffledSignal queueABC"
    and h2: "\<forall>k. 0 \<le> (\<lambda>_. 0 :: real) k \<and> (\<lambda>_. 0 :: real) k < 1"
    and h3: "mset (originalQueueSignal queueABC) = mset (queueSignal queueABC)"
    by (simp_all add: queueABC_fields)
  have cur: "currentTrackSignal queueABC = Some trackA
             \<and> trackId trackA \<in> trackId ` set (queueSignal queueABC)"
    by (simp add: queueABC_fields)
  have ida: "trackId trackA = ''a''"
    by (simp add: trackA_def mkTrack_def)
  note inst = toggleShuffle_roundtrip_amended [OF h1 h2 h3, of "\<lambda>_. 0"]
  from inst have "queueSignal (toggleShuffle (\<lambda>_. 0) (toggleShuffle (\<lambda>_. 0) queueABC))
      = originalQueueSignal queueABC" by blast
  moreover from inst cur have "pointerId (toggleShuffle (\<lambda>_. 0) queueABC) = Some (trackId trackA)
      \<and> pointerId (toggleShuffle (\<lambda>_. 0) (toggleShuffle (\<lambda>_. 0) queueABC)) = Some (trackId trackA)"
    by blast
  moreover have "currentIndexSignal (toggleShuffle (\<lambda>_. 0) offQueueState) = 0
      \<and> currentIndexSignal (toggleShuffle (\<lambda>_. 0) (toggleShuffle (\<lambda>_. 0) offQueueState)) = 0"
  proof -
    have g1: "\<not> isShuffledSignal offQueueState"
      and g3: "mset (originalQueueSignal offQueueState) = mset (queueSignal offQueueState)"
      by (simp_all add: offQueueState_fields)
    have out: "\<forall>t. currentTrackSignal offQueueState = Some t \<longrightarrow>
                 trackId t \<notin> trackId ` set (queueSignal offQueueState)"
      by (simp add: offQueueState_fields trackA_def trackB_def trackC_def mkTrack_def)
    from toggleShuffle_roundtrip_amended [OF g1 h2 g3, of "\<lambda>_. 0"] out
    have "currentIndexSignal (toggleShuffle (\<lambda>_. 0) offQueueState)
            = currentIndexSignal offQueueState
        \<and> currentIndexSignal (toggleShuffle (\<lambda>_. 0) (toggleShuffle (\<lambda>_. 0) offQueueState))
            = currentIndexSignal offQueueState"
      by blast
    then show ?thesis by (simp add: offQueueState_fields)
  qed
  ultimately show ?thesis using h1 h2 h3 ida by (simp add: queueABC_fields)
qed

lemma queueABC_shuffled:
  "map trackId (queueSignal (toggleShuffle (\<lambda>_. 0) queueABC)) = [''b'', ''c'', ''a'']
   \<and> currentIndexSignal (toggleShuffle (\<lambda>_. 0) queueABC) = 2"
  by (simp add: queueABC_def setQueue_def loadTrack_def at_index_def initialPlayer_def
      shuffle_defs trackA_def trackB_def trackC_def mkTrack_def Let_def numeral_2_eq_2)

text \<open>
  When the current track is not in the queue, the lookup by id finds nothing and the index
  stays where it was: after the toggle it points at \<open>b\<close>, neither the current track
  \<open>c\<close> nor the track \<open>a\<close> it pointed at before.
\<close>

theorem toggleShuffle_counterexample:
  "\<not> isShuffledSignal offQueueState
   \<and> currentTrackSignal offQueueState = Some trackC
   \<and> pointerId offQueueState = Some ''a''
   \<and> pointerId (toggleShuffle (\<lambda>_. 0) offQueueState) = Some ''b''"
  by (simp add: offQueueState_def setQueue_def loadTrack_def at_index_def initialPlayer_def
      shuffle_defs trackA_def trackB_def trackC_def mkTrack_def Let_def)

text \<open>
  \<open>removeFromQueue\<close> leaves the original queue as it was, so a removed track is back
  after shuffle has been enabled and disabled.
\<close>

lemma removed_track_comes_back:
  "map trackId (queueSignal removedState) = [''a'']
   \<and> map trackId (queueSignal (toggleShuffle (\<lambda>_. 0) (toggleShuffle (\<lambda>_. 0) removedState)))
       = [''a'', ''b'']"
  by (simp add: removedState_def setQueue_def removeFromQueue_def filterIndexNot_def loadTrack_def
      at_index_def initialPlayer_def shuffle_defs trackA_def trackB_def trackC_def mkTrack_def Let_def)

section \<open>Properties of numbers\<close>

lemma roundHalfEven_int [simp]: "roundHalfEven (of_int n) = n"
  by (simp add: roundHalfEven_def)

lemma binade_bounds:
  assumes "1 \<le> a" "a \<le> 2 ^ 53"
  shows "0 \<le> \<lfloor>log 2 a\<rfloor>" "\<lfloor>log 2 a\<rfloor> \<le> 53"
proof -
  have "0 \<le> log 2 a" using assms by simp
  then show "0 \<le> \<lfloor>log 2 a\<rfloor>" by simp
  have "log 2 ((2::real) ^ 53) = real 53" by (rule log_pow_cancel) simp_all
  moreover have "log 2 a \<le> log 2 (2 ^ 53)" using assms by simp
  ultimately have "log 2 a \<le> 53" by simp
  then show "\<lfloor>log 2 a\<rfloor> \<le> 53" by (simp add: floor_le_iff)
qed

text \<open>An integer of magnitude up to \<open>2 ^ 53\<close> is a whole number of spacings of its binade.\<close>

lemma scaled_int:
  assumes "1 \<le> \<bar>k\<bar>" "\<bar>k\<bar> \<le> 2 ^ 53"
  defines "e \<equiv> \<lfloor>log 2 (real_of_int \<bar>k\<bar>)\<rfloor>"
  shows "\<exists>m. real_of_int \<bar>k\<bar> / (2 powi (e - 52)) = of_int m"
proof -
  have a: "1 \<le> real_of_int \<bar>k\<bar>" "real_of_int \<bar>k\<bar> \<le> 2 ^ 53"
    using assms(1,2) by (simp_all add: of_int_le_numeral_power_cancel_iff)
  have e: "0 \<le> e" "e \<le> 53" unfolding e_def using binade_bounds [OF a] by simp_all
  show ?thesis
  proof (cases "e \<le> 52")
    case True
    then have "(2::real) powi (e - 52) = inverse (2 ^ nat (52 - e))"
      using power_int_minus [of "2::real" "52 - e"] by (simp add: power_int_def)
    then have "real_of_int \<bar>k\<bar> / (2 powi (e - 52)) = of_int (\<bar>k\<bar> * 2 ^ nat (52 - e))"
      by (simp add: field_simps)
    then show ?thesis by blast
  next
    case False
    with e have e53: "e = 53" by simp
    have "2 powr (of_int e) \<le> real_of_int \<bar>k\<bar>"
      using a(1) floor_log_eq_powr_iff [of "real_of_int \<bar>k\<bar>" 2 e] by (simp add: e_def)
    then have "2 ^ 53 \<le> real_of_int \<bar>k\<bar>" by (simp add: e53)
    with a(2) have "real_of_int \<bar>k\<bar> = 2 ^ 53" by simp
    then have "real_of_int \<bar>k\<bar> / (2 powi (e - 52)) = of_int (2 ^ 52)"
      by (simp add: e53)
    then show ?thesis by blast
  qed
qed

text \<open>Every integer of magnitude up to \<open>2 ^ 53\<close> is a double.\<close>

lemma roundDouble_int:
  assumes "\<bar>k\<bar> \<le> 2 ^ 53"
  shows "roundDouble (of_int k) = Num (of_int k)"
proof (cases "k = 0")
  case True
  then show ?thesis by (simp add: roundDouble_def)
next
  case False
  then have k1: "1 \<le> \<bar>k\<bar>" by simp
  let ?a = "real_of_int \<bar>k\<bar>"
  have a: "1 \<le> ?a" "?a \<le> 2 ^ 53"
    using k1 assms by (simp_all add: of_int_le_numeral_power_cancel_iff)
  have b: "binade ?a = \<lfloor>log 2 ?a\<rfloor>"
    using binade_bounds(1) [OF a] by (simp add: binade_def)
  obtain m where m: "?a / (2 powi (\<lfloor>log 2 ?a\<rfloor> - 52)) = of_int m"
    using scaled_int [OF k1 assms] by blast
  have pos: "(2::real) powi (\<lfloor>log 2 ?a\<rfloor> - 52) \<noteq> 0" by simp
  have rescale: "of_int m * (2 powi (\<lfloor>log 2 ?a\<rfloor> - 52)) = ?a"
    using m pos by (simp add: field_simps)
  have small: "\<not> ?a \<ge> 2 ^ 1024"
  proof -
    have "(2::real) ^ 53 < 2 ^ 1024" by (rule power_strict_increasing) simp_all
    with a(2) show ?thesis by simp
  qed
  have abs_eq: "\<bar>real_of_int k\<bar> = ?a" by simp
  have "roundDouble (of_int k) = Num (sgn (real_of_int k) * ?a)"
    using False small unfolding roundDouble_def Let_def abs_eq b m roundHalfEven_int rescale
    by simp
  also have "sgn (real_of_int k) * ?a = real_of_int k"
    by (simp add: sgn_real_def)
  finally show ?thesis .
qed

text \<open>\<open>2 ^ 53 + 1\<close> lies half way between two doubles and rounds to the even one.\<close>

lemma roundDouble_2_53_plus_1: "roundDouble (2 ^ 53 + 1) = Num (2 ^ 53)"
proof -
  let ?x = "(2::real) ^ 53 + 1"
  have e: "\<lfloor>log 2 ?x\<rfloor> = 53"
    by (subst floor_log_eq_powr_iff) simp_all
  have ax: "\<bar>?x\<bar> = ?x" by simp
  have b: "binade ?x = 53" unfolding binade_def e by simp
  have q: "?x / (2 powi (53 - 52)) = 2 ^ 52 + 1 / 2" by simp
  have fl: "\<lfloor>(2::real) ^ 52 + 1 / 2\<rfloor> = 2 ^ 52"
    by (simp add: floor_eq_iff)
  have r: "roundHalfEven (2 ^ 52 + 1 / 2) = 2 ^ 52"
    unfolding roundHalfEven_def Let_def fl by simp
  show ?thesis
    unfolding roundDouble_def Let_def ax b q r by simp
qed

lemma orZero_Num [simp]: "orZero (Num r) = Num r"
  by (simp add: orZero_def)

lemma jsAdd_one_int:
  assumes "0 \<le> n" "n < 2 ^ 53"
  shows "jsAdd (orZero (Num (of_int n))) (Num 1) = Num (of_int (n + 1))"
proof -
  have "\<bar>n + 1\<bar> \<le> 2 ^ 53" using assms by simp
  from roundDouble_int [OF this] show ?thesis by (simp add: jsAdd_def)
qed

lemma jsAdd_one_max: "jsAdd (orZero (Num (2 ^ 53))) (Num 1) = Num (2 ^ 53)"
  unfolding orZero_Num jsAdd_def using roundDouble_2_53_plus_1 by simp

lemma numLess_irrefl: "\<not> numLess v v"
  by (simp add: numLess_def)

section \<open>Properties of the store and the library\<close>

lemma getRecord_putRecord:
  "getRecord key k (putRecord key r rs) = (if key r = k then Some r else getRecord key k rs)"
  by (induction rs) (auto simp: getRecord_def)

lemma getRecord_key: "getRecord key k rs = Some r \<Longrightarrow> key r = k"
  by (induction rs) (auto simp: getRecord_def split: if_splits)

lemma deleteRecord_absent: "getRecord key k rs = None \<Longrightarrow> deleteRecord key k rs = rs"
  by (induction rs) (auto simp: getRecord_def deleteRecord_def split: if_splits)

lemma deleteRecord_twice: "deleteRecord key k (deleteRecord key k rs) = deleteRecord key k rs"
  by (simp add: deleteRecord_def)

lemma toggleTrackLike_found:
  "getRecord trackId k (tracksStore st) = Some t \<Longrightarrow>
     toggleTrackLike Succeeds (\<lambda>_. Succeeds) k st =
       (Inr (jsAdd (orZero (likes t)) (Num 1)),
        st\<lparr> tracksStore :=
              putRecord trackId (t\<lparr> likes := jsAdd (orZero (likes t)) (Num 1) \<rparr>) (tracksStore st) \<rparr>)"
  by (simp add: toggleTrackLike_def getTrack_def saveTrack_def Let_def)

text \<open>
  C10, as the code has it. With the store answering its requests: for an id whose record
  has as like count an integer \<open>n\<close> with \<open>0 \<le> n < 2 ^ 53\<close>, \<open>toggleTrackLike\<close>
  returns \<open>n + 1\<close> and the record then holds that count, its other fields as before; a
  second call returns \<open>n + 2\<close> when \<open>n + 1\<close> is below \<open>2 ^ 53\<close> too. For an id
  without a record it returns \<open>0\<close> and the service is as before, whatever the store
  would have done with a write.
\<close>

theorem toggleTrackLike_amended:
  "(getRecord trackId k (tracksStore st) = Some t \<and> likes t = Num (of_int n)
      \<and> 0 \<le> n \<and> n < 2 ^ 53 \<longrightarrow>
      fst (toggleTrackLike Succeeds (\<lambda>_. Succeeds) k st) = Inr (Num (of_int (n + 1)))
      \<and> getRecord trackId k (tracksStore (snd (toggleTrackLike Succeeds (\<lambda>_. Succeeds) k st)))
          = Some (t\<lparr> likes := Num (of_int (n + 1)) \<rparr>)
      \<and> (n + 1 < 2 ^ 53 \<longrightarrow>
           fst (toggleTrackLike Succeeds (\<lambda>_. Succeeds) k
                  (snd (toggleTrackLike Succeeds (\<lambda>_. Succeeds) k st)))
             = Inr (Num (of_int (n + 2)))))
   \<and> (getRecord trackId k (tracksStore st) = None \<longrightarrow>
        toggleTrackLike Succeeds putReq k st = (Inr (Num 0), st))"
proof (intro conjI impI)
  assume "getRecord trackId k (tracksStore st) = None"
  then show "toggleTrackLike Succeeds putReq k st = (Inr (Num 0), st)"
    by (simp add: toggleTrackLike_def getTrack_def)
next
  assume h: "getRecord trackId k (tracksStore st) = Some t \<and> likes t = Num (of_int n)
      \<and> 0 \<le> n \<and> n < 2 ^ 53"
  then have t: "getRecord trackId k (tracksStore st) = Some t" and n: "0 \<le> n" "n < 2 ^ 53"
    and l: "likes t = Num (of_int n)" by simp_all
  from t have key: "trackId t = k" by (rule getRecord_key)
  let ?t1 = "t\<lparr> likes := Num (of_int (n + 1)) \<rparr>"
  let ?st1 = "st\<lparr> tracksStore := putRecord trackId ?t1 (tracksStore st) \<rparr>"
  have step: "toggleTrackLike Succeeds (\<lambda>_. Succeeds) k st = (Inr (Num (of_int (n + 1))), ?st1)"
    unfolding toggleTrackLike_found [OF t] l jsAdd_one_int [OF n] ..
  show "fst (toggleTrackLike Succeeds (\<lambda>_. Succeeds) k st) = Inr (Num (of_int (n + 1)))"
    by (simp add: step)
  show "getRecord trackId k (tracksStore (snd (toggleTrackLike Succeeds (\<lambda>_. Succeeds) k st)))
          = Some ?t1"
    using key by (simp add: step getRecord_putRecord)
  {
    assume n1: "n + 1 < 2 ^ 53"
    have t1: "getRecord trackId k (tracksStore ?st1) = Some ?t1"
      using key by (simp add: getRecord_putRecord)
    have l1: "likes ?t1 = Num (of_int (n + 1))" by simp
    have n0: "0 \<le> n + 1" using n by simp
    have "fst (toggleTrackLike Succeeds (\<lambda>_. Succeeds) k ?st1) = Inr (Num (of_int (n + 1 + 1)))"
      unfolding toggleTrackLike_found [OF t1] l1 jsAdd_one_int [OF n0 n1] by simp
    then show "fst (toggleTrackLike Succeeds (\<lambda>_. Succeeds) k
                  (snd (toggleTrackLike Succeeds (\<lambda>_. Succeeds) k st)))
             = Inr (Num (of_int (n + 2)))"
      by (simp add: step)
  }
qed

lemmas store_defs = sampleStore_def libraryStore_def samplePlaylist_def trackA_def trackB_def
  trackC_def trackLive_def mkTrack_def getRecord_def

theorem toggleTrackLike_amended_witness:
  "getRecord trackId ''a'' (tracksStore sampleStore) = Some trackA
   \<and> likes trackA = Num (of_int 0)
   \<and> fst (toggleTrackLike Succeeds (\<lambda>_. Succeeds) ''a'' sampleStore) = Inr (Num 1)
   \<and> fst (toggleTrackLike Succeeds (\<lambda>_. Succeeds) ''a''
            (snd (toggleTrackLike Succeeds (\<lambda>_. Succeeds) ''a'' sampleStore)))
       = Inr (Num 2)
   \<and> getRecord trackId ''zz'' (tracksStore sampleStore) = None
   \<and> toggleTrackLike Succeeds (\<lambda>_. Succeeds) ''zz'' sampleStore = (Inr (Num 0), sampleStore)"
proof -
  have a: "getRecord trackId ''a'' (tracksStore sampleStore) = Some trackA"
    by (simp add: store_defs)
  have z: "getRecord trackId ''zz'' (tracksStore sampleStore) = None"
    by (simp add: store_defs)
  have l: "likes trackA = Num (of_int 0)"
    by (simp add: trackA_def mkTrack_def)
  have b: "(0::int) \<le> 0 \<and> (0::int) < 2 ^ 53 \<and> (0::int) + 1 < 2 ^ 53"
    by simp
  from toggleTrackLike_amended [of "''a''" sampleStore trackA 0] a l b
  have "fst (toggleTrackLike Succeeds (\<lambda>_. Succeeds) ''a'' sampleStore) = Inr (Num (of_int (0 + 1)))
        \<and> fst (toggleTrackLike Succeeds (\<lambda>_. Succeeds) ''a''
                 (snd (toggleTrackLike Succeeds (\<lambda>_. Succeeds) ''a'' sampleStore)))
            = Inr (Num (of_int (0 + 2)))"
    by blast
  moreover from toggleTrackLike_amended [of "''zz''" sampleStore trackA 0 "\<lambda>_. Succeeds"] z
  have "toggleTrackLike Succeeds (\<lambda>_. Succeeds) ''zz'' sampleStore = (Inr (Num 0), sampleStore)"
    by blast
  ultimately show ?thesis using a z l by simp
qed

text \<open>
  At a like count of \<open>2 ^ 53\<close> the sum \<open>2 ^ 53 + 1\<close> is not a double and rounds back:
  the call returns \<open>2 ^ 53\<close>, the count it found.
\<close>

theorem toggleTrackLike_counterexample:
  "getRecord trackId ''m'' (tracksStore maxStore) = Some trackMax
   \<and> likes trackMax = Num (2 ^ 53)
   \<and> fst (toggleTrackLike Succeeds (\<lambda>_. Succeeds) ''m'' maxStore) = Inr (Num (2 ^ 53))"
proof -
  have r: "getRecord trackId ''m'' (tracksStore maxStore) = Some trackMax"
    by (simp add: maxStore_def trackMax_def mkTrack_def getRecord_def)
  have l: "likes trackMax = Num (2 ^ 53)"
    by (simp add: trackMax_def)
  have "fst (toggleTrackLike Succeeds (\<lambda>_. Succeeds) ''m'' maxStore) = Inr (Num (2 ^ 53))"
    unfolding toggleTrackLike_found [OF r] l jsAdd_one_max by simp
  with r l show ?thesis by simp
qed

text \<open>
  C8. With the store answering the request: deleting an id a second time succeeds and
  returns the library and the store exactly as the first delete left them, so the projection
  is the same under any sort of the engine; and deleting an id that neither the store nor the
  list holds succeeds and changes nothing but the loading state, which becomes \<open>success\<close>.
\<close>

theorem deleteTrack_idempotent:
  "TrackService_deleteTrack Succeeds k (snd (TrackService_deleteTrack Succeeds k s))
     = (Inr (), snd (TrackService_deleteTrack Succeeds k s))
   \<and> tracksView arraySort
       (snd (TrackService_deleteTrack Succeeds k (snd (TrackService_deleteTrack Succeeds k s))))
     = tracksView arraySort (snd (TrackService_deleteTrack Succeeds k s))
   \<and> (getRecord trackId k (tracksStore (storageService s)) = None
        \<and> getRecord trackId k (tracksSignal s) = None \<longrightarrow>
        TrackService_deleteTrack Succeeds k s = (Inr (), s\<lparr> loadingState := success \<rparr>))"
proof -
  have 1: "TrackService_deleteTrack Succeeds k (snd (TrackService_deleteTrack Succeeds k s))
     = (Inr (), snd (TrackService_deleteTrack Succeeds k s))"
    by (simp add: TrackService_deleteTrack_def StorageService_deleteTrack_def deleteRecord_def Let_def)
  have 3: "TrackService_deleteTrack Succeeds k s = (Inr (), s\<lparr> loadingState := success \<rparr>)"
    if "getRecord trackId k (tracksStore (storageService s)) = None"
      and "getRecord trackId k (tracksSignal s) = None"
    using deleteRecord_absent [OF that(1)] deleteRecord_absent [OF that(2)]
    by (simp add: TrackService_deleteTrack_def StorageService_deleteTrack_def deleteRecord_def Let_def)
  show ?thesis using 1 3 by simp
qed

theorem deleteTrack_idempotent_witness:
  "getRecord trackId ''zz'' (tracksStore (storageService sampleLibrary)) = None
   \<and> getRecord trackId ''zz'' (tracksSignal sampleLibrary) = None
   \<and> TrackService_deleteTrack Succeeds ''zz'' sampleLibrary = (Inr (), sampleLibrary)
   \<and> map trackId (tracksSignal (snd (TrackService_deleteTrack Succeeds ''a'' sampleLibrary))) = [''b'']
   \<and> TrackService_deleteTrack Succeeds ''a'' (snd (TrackService_deleteTrack Succeeds ''a'' sampleLibrary))
       = (Inr (), snd (TrackService_deleteTrack Succeeds ''a'' sampleLibrary))"
proof -
  have z: "getRecord trackId ''zz'' (tracksStore (storageService sampleLibrary)) = None
           \<and> getRecord trackId ''zz'' (tracksSignal sampleLibrary) = None"
    by (simp add: sampleLibrary_def store_defs)
  have same: "sampleLibrary\<lparr> loadingState := success \<rparr> = sampleLibrary"
    by (simp add: sampleLibrary_def)
  have once: "map trackId (tracksSignal (snd (TrackService_deleteTrack Succeeds ''a'' sampleLibrary))) = [''b'']"
    by (simp add: TrackService_deleteTrack_def StorageService_deleteTrack_def Let_def
        sampleLibrary_def store_defs)
  from deleteTrack_idempotent [of "''zz''" sampleLibrary] z same
  have "TrackService_deleteTrack Succeeds ''zz'' sampleLibrary = (Inr (), sampleLibrary)"
    by simp
  moreover from deleteTrack_idempotent [of "''a''" sampleLibrary]
  have "TrackService_deleteTrack Succeeds ''a'' (snd (TrackService_deleteTrack Succeeds ''a'' sampleLibrary))
       = (Inr (), snd (TrackService_deleteTrack Succeeds ''a'' sampleLibrary))"
    by blast
  ultimately show ?thesis using z once by simp
qed

subsection \<open>Import and export\<close>

lemma saveTracks_accepted:
  "\<forall>t\<in>set ts. req t = Succeeds \<Longrightarrow>
     saveTracks req ts st =
       (Inr (), st\<lparr> tracksStore := foldl (\<lambda>rs t. putRecord trackId t rs) (tracksStore st) ts \<rparr>)"
  by (induction ts arbitrary: st) (simp_all add: saveTrack_def)

lemma savePlaylists_accepted:
  "\<forall>p\<in>set ps. req p = Succeeds \<Longrightarrow>
     savePlaylists req ps st =
       (Inr (), st\<lparr> playlistsStore := foldl (\<lambda>rs p. putRecord playlistId p rs) (playlistsStore st) ps \<rparr>)"
  by (induction ps arbitrary: st) (simp_all add: savePlaylist_def)

lemma saveTracks_stops:
  "\<forall>t\<in>set pre. req t = Succeeds \<Longrightarrow> req bad = Fails e \<or> req bad = Throws e \<Longrightarrow>
     saveTracks req (pre @ bad # rest) st =
       (Inl e,
        st\<lparr> tracksStore := foldl (\<lambda>rs t. putRecord trackId t rs) (tracksStore st) pre,
            storageError :=
              (case req bad of
                 Fails _ \<Rightarrow> Some ''Erreur lors de la sauvegarde de la piste''
               | _ \<Rightarrow> storageError st) \<rparr>)"
  by (induction pre arbitrary: st) (auto simp: saveTrack_def)

lemma savePlaylists_stops:
  "\<forall>p\<in>set pre. req p = Succeeds \<Longrightarrow> req bad = Fails e \<or> req bad = Throws e \<Longrightarrow>
     savePlaylists req (pre @ bad # rest) st =
       (Inl e,
        st\<lparr> playlistsStore := foldl (\<lambda>rs p. putRecord playlistId p rs) (playlistsStore st) pre,
            storageError :=
              (case req bad of
                 Fails _ \<Rightarrow> Some ''Erreur lors de la sauvegarde de la playlist''
               | _ \<Rightarrow> storageError st) \<rparr>)"
  by (induction pre arbitrary: st) (auto simp: savePlaylist_def)

text \<open>
  C5, as the code has it. The records are written one after the other, the tracks first,
  then the playlists. When the store rejects the write of a track, \<open>importData\<close> is
  rejected with that error at once: the tracks before it are in the store and stay there,
  the tracks after it are not written, and no playlist is written. When every track is
  written and the store rejects the write of a playlist, \<open>importData\<close> is rejected with
  that error at once: the tracks and the playlists before it are in the store, the playlists
  after it are not written. The result carries the one error. \<open>storageError\<close> holds the
  message of the failed write when the request failed, and is as before when the call threw.
\<close>

theorem importData_stops_at_first_failure:
  "((\<forall>t\<in>set pre. trackReq t = Succeeds) \<and> (trackReq bad = Fails e \<or> trackReq bad = Throws e) \<longrightarrow>
      importData trackReq playlistReq
        (Json \<lparr> dataTracks = Some (pre @ bad # rest), dataPlaylists = ps,
                exportDate = d, version = v \<rparr>) st
      = (Inl e,
         st\<lparr> tracksStore := foldl (\<lambda>rs t. putRecord trackId t rs) (tracksStore st) pre,
             storageError :=
               (case trackReq bad of
                  Fails _ \<Rightarrow> Some ''Erreur lors de la sauvegarde de la piste''
                | _ \<Rightarrow> storageError st) \<rparr>))
   \<and> ((\<forall>t\<in>set (case tso of None \<Rightarrow> [] | Some ts \<Rightarrow> ts). trackReq t = Succeeds)
        \<and> (\<forall>p\<in>set ppre. playlistReq p = Succeeds)
        \<and> (playlistReq pbad = Fails e' \<or> playlistReq pbad = Throws e') \<longrightarrow>
      importData trackReq playlistReq
        (Json \<lparr> dataTracks = tso, dataPlaylists = Some (ppre @ pbad # prest),
                exportDate = d, version = v \<rparr>) st
      = (Inl e',
         st\<lparr> tracksStore :=
               foldl (\<lambda>rs t. putRecord trackId t rs) (tracksStore st)
                 (case tso of None \<Rightarrow> [] | Some ts \<Rightarrow> ts),
             playlistsStore :=
               foldl (\<lambda>rs p. putRecord playlistId p rs) (playlistsStore st) ppre,
             storageError :=
               (case playlistReq pbad of
                  Fails _ \<Rightarrow> Some ''Erreur lors de la sauvegarde de la playlist''
                | _ \<Rightarrow> storageError st) \<rparr>))"
proof (intro conjI impI)
  assume "(\<forall>t\<in>set pre. trackReq t = Succeeds) \<and> (trackReq bad = Fails e \<or> trackReq bad = Throws e)"
  then have "\<forall>t\<in>set pre. trackReq t = Succeeds" "trackReq bad = Fails e \<or> trackReq bad = Throws e"
    by simp_all
  from saveTracks_stops [OF this]
  show "importData trackReq playlistReq
        (Json \<lparr> dataTracks = Some (pre @ bad # rest), dataPlaylists = ps,
                exportDate = d, version = v \<rparr>) st
      = (Inl e,
         st\<lparr> tracksStore := foldl (\<lambda>rs t. putRecord trackId t rs) (tracksStore st) pre,
             storageError :=
               (case trackReq bad of
                  Fails _ \<Rightarrow> Some ''Erreur lors de la sauvegarde de la piste''
                | _ \<Rightarrow> storageError st) \<rparr>)"
    by (simp add: importData_def)
next
  assume h: "(\<forall>t\<in>set (case tso of None \<Rightarrow> [] | Some ts \<Rightarrow> ts). trackReq t = Succeeds)
        \<and> (\<forall>p\<in>set ppre. playlistReq p = Succeeds)
        \<and> (playlistReq pbad = Fails e' \<or> playlistReq pbad = Throws e')"
  let ?ts = "case tso of None \<Rightarrow> [] | Some ts \<Rightarrow> ts"
  let ?st1 = "st\<lparr> tracksStore := foldl (\<lambda>rs t. putRecord trackId t rs) (tracksStore st) ?ts \<rparr>"
  have tr: "(case tso of None \<Rightarrow> (Inr (), st) | Some ts \<Rightarrow> saveTracks trackReq ts st) = (Inr (), ?st1)"
  proof (cases tso)
    case None
    then show ?thesis by simp
  next
    case (Some ts)
    with h have "\<forall>t\<in>set ts. trackReq t = Succeeds" by simp
    from saveTracks_accepted [OF this] Some show ?thesis by simp
  qed
  from h have "\<forall>p\<in>set ppre. playlistReq p = Succeeds"
    "playlistReq pbad = Fails e' \<or> playlistReq pbad = Throws e'" by simp_all
  from savePlaylists_stops [OF this, of prest ?st1]
  show "importData trackReq playlistReq
        (Json \<lparr> dataTracks = tso, dataPlaylists = Some (ppre @ pbad # prest),
                exportDate = d, version = v \<rparr>) st
      = (Inl e',
         st\<lparr> tracksStore := foldl (\<lambda>rs t. putRecord trackId t rs) (tracksStore st) ?ts,
             playlistsStore :=
               foldl (\<lambda>rs p. putRecord playlistId p rs) (playlistsStore st) ppre,
             storageError :=
               (case playlistReq pbad of
                  Fails _ \<Rightarrow> Some ''Erreur lors de la sauvegarde de la playlist''
                | _ \<Rightarrow> storageError st) \<rparr>)"
    by (simp add: importData_def tr split: Outcome.splits)
qed

lemma trackId_jsonTrack [simp]: "trackId (jsonTrack t) = trackId t"
  by (simp add: jsonTrack_def)

lemma playlistId_jsonPlaylist [simp]: "playlistId (jsonPlaylist p) = playlistId p"
  by (simp add: jsonPlaylist_def)

lemma sample_ids:
  "trackId trackA = ''a''" "trackId trackB = ''b''" "trackId trackC = ''c''"
  "trackId trackLive = ''s''"
  "playlistId samplePlaylist = ''p1''" "playlistId samplePlaylist2 = ''p2''"
  by (simp_all add: trackA_def trackB_def trackC_def trackLive_def mkTrack_def
      samplePlaylist_def samplePlaylist2_def)

theorem importData_stops_at_first_failure_witness:
  "rejectB (jsonTrack trackA) = Succeeds
   \<and> rejectB (jsonTrack trackB) = Fails (DOMException ''QuotaExceededError'')
   \<and> importData rejectB (\<lambda>_. Succeeds) sampleImport emptyStorage
       = (Inl (DOMException ''QuotaExceededError''),
          \<lparr> tracksStore = [jsonTrack trackA], playlistsStore = [],
            storageError = Some ''Erreur lors de la sauvegarde de la piste'' \<rparr>)
   \<and> rejectP2 (jsonPlaylist samplePlaylist) = Succeeds
   \<and> rejectP2 (jsonPlaylist samplePlaylist2) = Throws (DOMException ''DataError'')
   \<and> importData (\<lambda>_. Succeeds) rejectP2 sampleImport emptyStorage
       = (Inl (DOMException ''DataError''),
          \<lparr> tracksStore = [jsonTrack trackA, jsonTrack trackB, jsonTrack trackC],
            playlistsStore = [jsonPlaylist samplePlaylist],
            storageError = None \<rparr>)"
proof -
  have h1: "\<forall>t\<in>set [jsonTrack trackA]. rejectB t = Succeeds"
    by (simp add: rejectB_def sample_ids)
  have h2: "rejectB (jsonTrack trackB) = Fails (DOMException ''QuotaExceededError'')
            \<or> rejectB (jsonTrack trackB) = Throws (DOMException ''QuotaExceededError'')"
    by (simp add: rejectB_def sample_ids)
  have g1: "\<forall>t\<in>set (case Some [jsonTrack trackA, jsonTrack trackB, jsonTrack trackC] of
                        None \<Rightarrow> [] | Some ts \<Rightarrow> ts). (\<lambda>_. Succeeds) t = Succeeds"
    by simp
  have g2: "\<forall>p\<in>set [jsonPlaylist samplePlaylist]. rejectP2 p = Succeeds"
    by (simp add: rejectP2_def sample_ids)
  have g3: "rejectP2 (jsonPlaylist samplePlaylist2) = Fails (DOMException ''DataError'')
            \<or> rejectP2 (jsonPlaylist samplePlaylist2) = Throws (DOMException ''DataError'')"
    by (simp add: rejectP2_def sample_ids)
  from importData_stops_at_first_failure [of "[jsonTrack trackA]" rejectB "jsonTrack trackB"
      "DOMException ''QuotaExceededError''" "\<lambda>_. Succeeds" "[jsonTrack trackC]"
      "Some [jsonPlaylist samplePlaylist, jsonPlaylist samplePlaylist2]" "IsoString 0" "''1.0''"
      emptyStorage] h1 h2
  have 1: "importData rejectB (\<lambda>_. Succeeds) sampleImport emptyStorage
       = (Inl (DOMException ''QuotaExceededError''),
          \<lparr> tracksStore = [jsonTrack trackA], playlistsStore = [],
            storageError = Some ''Erreur lors de la sauvegarde de la piste'' \<rparr>)"
    by (simp add: sampleImport_def emptyStorage_def rejectB_def sample_ids)
  from importData_stops_at_first_failure [of _ "\<lambda>_. Succeeds" _ _ rejectP2 _ _ "IsoString 0" "''1.0''"
      emptyStorage "Some [jsonTrack trackA, jsonTrack trackB, jsonTrack trackC]"
      "[jsonPlaylist samplePlaylist]" "jsonPlaylist samplePlaylist2" "DOMException ''DataError''" "[]"]
    g1 g2 g3
  have 2: "importData (\<lambda>_. Succeeds) rejectP2 sampleImport emptyStorage
       = (Inl (DOMException ''DataError''),
          \<lparr> tracksStore = [jsonTrack trackA, jsonTrack trackB, jsonTrack trackC],
            playlistsStore = [jsonPlaylist samplePlaylist],
            storageError = None \<rparr>)"
    by (simp add: sampleImport_def emptyStorage_def rejectP2_def sample_ids)
  show ?thesis
    using 1 2 by (simp add: rejectB_def rejectP2_def sample_ids)
qed

text \<open>
  The second of three tracks is rejected: the import fails with the error of that write, and
  the third track, which the store would have accepted, is not in the store, nor is a
  playlist.
\<close>

theorem importData_counterexample:
  "fst (importData rejectB (\<lambda>_. Succeeds) sampleImport emptyStorage)
     = Inl (DOMException ''QuotaExceededError'')
   \<and> rejectB (jsonTrack trackC) = Succeeds
   \<and> getRecord trackId ''c''
       (tracksStore (snd (importData rejectB (\<lambda>_. Succeeds) sampleImport emptyStorage)))
       = None
   \<and> playlistsStore (snd (importData rejectB (\<lambda>_. Succeeds) sampleImport emptyStorage)) = []"
  by (simp add: importData_def sampleImport_def emptyStorage_def saveTrack_def rejectB_def
      sample_ids getRecord_def)

lemma putRecord_new: "key r \<notin> key ` set rs \<Longrightarrow> putRecord key r rs = rs @ [r]"
  by (induction rs) auto

lemma foldl_putRecord_distinct:
  "distinct (map key (rs @ xs)) \<Longrightarrow> foldl (\<lambda>rs r. putRecord key r rs) rs xs = rs @ xs"
proof (induction xs arbitrary: rs)
  case Nil
  then show ?case by simp
next
  case (Cons x xs)
  have new: "key x \<notin> key ` set rs" using Cons.prems by auto
  have "distinct (map key ((rs @ [x]) @ xs))" using Cons.prems by simp
  from Cons.IH [OF this] show ?case by (simp add: putRecord_new [OF new])
qed

lemma jsonNumber_finite: "isFiniteNumber x \<Longrightarrow> jsonNumber x = x"
  by (cases x) (simp_all add: isFiniteNumber_def)

lemma jsonNumber_not_finite: "\<not> isFiniteNumber x \<Longrightarrow> jsonNumber x = Null"
  by (cases x) (simp_all add: isFiniteNumber_def)

text \<open>
  C6, as the code has it. For a store with one record per id, an export followed by an
  import into the empty store, every request granted, succeeds and yields the same tracks
  and playlists, id by id and field by field, except that every date (\<open>addedDate\<close>, also
  of the tracks inside a playlist, and \<open>createdDate\<close>) is the ISO string of the instant
  where the store had a valid \<open>Date\<close> and \<open>null\<close> where it had an invalid one (a
  date that is a string or \<open>null\<close> already stays), and that every number that is not
  finite (\<open>NaN\<close>, an infinity) is \<open>null\<close>. A track whose numbers are finite and
  whose date is a valid \<open>Date\<close> differs in its date only.
\<close>

theorem export_import_amended:
  assumes "distinct (map trackId (tracksStore st))"
    and "distinct (map playlistId (playlistsStore st))"
  shows "exportThenImport now st =
     Inr \<lparr> tracksStore =
             map (\<lambda>t. t\<lparr> duration := jsonNumber (duration t),
                         addedDate := jsonDate (addedDate t),
                         fileSize := jsonNumber (fileSize t),
                         plays := jsonNumber (plays t),
                         likes := jsonNumber (likes t) \<rparr>)
               (tracksStore st),
           playlistsStore =
             map (\<lambda>p. p\<lparr> tracks :=
                           map (\<lambda>t. t\<lparr> duration := jsonNumber (duration t),
                                       addedDate := jsonDate (addedDate t),
                                       fileSize := jsonNumber (fileSize t),
                                       plays := jsonNumber (plays t),
                                       likes := jsonNumber (likes t) \<rparr>)
                             (tracks p),
                         createdDate := jsonDate (createdDate p) \<rparr>)
               (playlistsStore st),
           storageError = None \<rparr>
   \<and> (\<forall>x. jsonNumber x = (if isFiniteNumber x then x else Null))
   \<and> (\<forall>ms. jsonDate (DateObj ms) = IsoString ms) \<and> jsonDate InvalidDate = DateNull
   \<and> (\<forall>ms. jsonDate (IsoString ms) = IsoString ms) \<and> jsonDate DateNull = DateNull
   \<and> (\<forall>t ms. isFiniteNumber (duration t) \<and> isFiniteNumber (fileSize t)
          \<and> isFiniteNumber (plays t) \<and> isFiniteNumber (likes t)
          \<and> addedDate t = DateObj ms \<longrightarrow>
          jsonTrack t = t\<lparr> addedDate := IsoString ms \<rparr>)"
proof -
  let ?ts = "map jsonTrack (tracksStore st)"
  let ?ps = "map jsonPlaylist (playlistsStore st)"
  have dt: "distinct (map trackId ([] @ ?ts))"
    using assms(1) by (simp add: comp_def)
  have dp: "distinct (map playlistId ([] @ ?ps))"
    using assms(2) by (simp add: comp_def)
  have ex: "exportData Succeeds Succeeds now st =
      (Inr (Json \<lparr> dataTracks = Some ?ts, dataPlaylists = Some ?ps,
                   exportDate = IsoString now, version = ''1.0'' \<rparr>), st)"
    by (simp add: exportData_def getAllTracks_def getAllPlaylists_def jsonData_def)
  have im: "importData (\<lambda>_. Succeeds) (\<lambda>_. Succeeds)
        (Json \<lparr> dataTracks = Some ?ts, dataPlaylists = Some ?ps,
                exportDate = IsoString now, version = ''1.0'' \<rparr>) emptyStorage
      = (Inr (), \<lparr> tracksStore = ?ts, playlistsStore = ?ps, storageError = None \<rparr>)"
    using foldl_putRecord_distinct [OF dt] foldl_putRecord_distinct [OF dp]
    by (simp add: importData_def saveTracks_accepted savePlaylists_accepted emptyStorage_def)
  have jt: "jsonTrack =
      (\<lambda>t. t\<lparr> duration := jsonNumber (duration t), addedDate := jsonDate (addedDate t),
               fileSize := jsonNumber (fileSize t), plays := jsonNumber (plays t),
               likes := jsonNumber (likes t) \<rparr>)"
    by (rule ext) (simp add: jsonTrack_def)
  have jp: "jsonPlaylist =
      (\<lambda>p. p\<lparr> tracks :=
                 map (\<lambda>t. t\<lparr> duration := jsonNumber (duration t),
                             addedDate := jsonDate (addedDate t),
                             fileSize := jsonNumber (fileSize t), plays := jsonNumber (plays t),
                             likes := jsonNumber (likes t) \<rparr>)
                   (tracks p),
               createdDate := jsonDate (createdDate p) \<rparr>)"
    by (rule ext) (simp add: jsonPlaylist_def jt)
  have "exportThenImport now st = Inr \<lparr> tracksStore = ?ts, playlistsStore = ?ps, storageError = None \<rparr>"
    by (simp add: exportThenImport_def ex im)
  then have main: "exportThenImport now st =
     Inr \<lparr> tracksStore =
             map (\<lambda>t. t\<lparr> duration := jsonNumber (duration t),
                         addedDate := jsonDate (addedDate t),
                         fileSize := jsonNumber (fileSize t),
                         plays := jsonNumber (plays t),
                         likes := jsonNumber (likes t) \<rparr>)
               (tracksStore st),
           playlistsStore =
             map (\<lambda>p. p\<lparr> tracks :=
                           map (\<lambda>t. t\<lparr> duration := jsonNumber (duration t),
                                       addedDate := jsonDate (addedDate t),
                                       fileSize := jsonNumber (fileSize t),
                                       plays := jsonNumber (plays t),
                                       likes := jsonNumber (likes t) \<rparr>)
                             (tracks p),
                         createdDate := jsonDate (createdDate p) \<rparr>)
               (playlistsStore st),
           storageError = None \<rparr>"
    unfolding jt jp .
  have num: "\<forall>x. jsonNumber x = (if isFiniteNumber x then x else Null)"
    by (simp add: jsonNumber_finite jsonNumber_not_finite)
  have only_date: "jsonTrack t = t\<lparr> addedDate := IsoString ms \<rparr>"
    if "isFiniteNumber (duration t) \<and> isFiniteNumber (fileSize t)
          \<and> isFiniteNumber (plays t) \<and> isFiniteNumber (likes t) \<and> addedDate t = DateObj ms"
    for t ms
    using that by (simp add: jsonTrack_def jsonNumber_finite)
  show ?thesis using main num only_date by simp
qed

lemma sample_roundtrip:
  "exportThenImport 1000 sampleStore =
     Inr \<lparr> tracksStore =
             [trackA\<lparr> addedDate := IsoString 0 \<rparr>, trackB\<lparr> addedDate := IsoString 0 \<rparr>,
              trackLive\<lparr> duration := Null, addedDate := IsoString 0 \<rparr>],
           playlistsStore =
             [samplePlaylist\<lparr> tracks := [trackA\<lparr> addedDate := IsoString 0 \<rparr>],
                               createdDate := IsoString 5 \<rparr>],
           storageError = None \<rparr>"
  by (simp add: exportThenImport_def exportData_def importData_def getAllTracks_def
      getAllPlaylists_def jsonData_def jsonTrack_def jsonPlaylist_def saveTrack_def savePlaylist_def
      emptyStorage_def store_defs)

theorem export_import_amended_witness:
  "distinct (map trackId (tracksStore sampleStore))
   \<and> distinct (map playlistId (playlistsStore sampleStore))
   \<and> exportThenImport 1000 sampleStore =
       Inr \<lparr> tracksStore =
               [trackA\<lparr> addedDate := IsoString 0 \<rparr>, trackB\<lparr> addedDate := IsoString 0 \<rparr>,
                trackLive\<lparr> duration := Null, addedDate := IsoString 0 \<rparr>],
             playlistsStore =
               [samplePlaylist\<lparr> tracks := [trackA\<lparr> addedDate := IsoString 0 \<rparr>],
                                 createdDate := IsoString 5 \<rparr>],
             storageError = None \<rparr>"
proof -
  have h1: "distinct (map trackId (tracksStore sampleStore))"
    and h2: "distinct (map playlistId (playlistsStore sampleStore))"
    by (simp_all add: store_defs)
  from export_import_amended [OF h1 h2, of 1000]
  show ?thesis using h1 h2 by (simp add: store_defs)
qed

text \<open>
  The track \<open>a\<close> is stored with a \<open>Date\<close> and the track \<open>s\<close> with the duration
  \<open>Infinity\<close>; after the round trip the \<open>addedDate\<close> of \<open>a\<close> is a string and the
  duration of \<open>s\<close> is \<open>null\<close>, so the store is not the one exported.
\<close>

theorem export_import_counterexample:
  "getRecord trackId ''a'' (tracksStore sampleStore) = Some trackA
   \<and> addedDate trackA = DateObj 0
   \<and> duration trackLive = PosInf
   \<and> (case exportThenImport 1000 sampleStore of
         Inl _ \<Rightarrow> False
       | Inr st' \<Rightarrow>
           map_option addedDate (getRecord trackId ''a'' (tracksStore st')) = Some (IsoString 0)
           \<and> map_option duration (getRecord trackId ''s'' (tracksStore st')) = Some Null)
   \<and> exportThenImport 1000 sampleStore \<noteq> Inr sampleStore"
  by (simp add: sample_roundtrip) (simp add: store_defs)

subsection \<open>Sorting\<close>

lemma compareTracks_never_zero: "compareTracks sortBy sortOrder a b \<noteq> 0"
  by (cases sortOrder) (simp_all add: compareTracks_def Let_def)

lemma gtValue_irrefl: "\<not> gtValue v v"
  by (cases v) (simp_all add: numLess_irrefl)

lemma ltValue_irrefl: "\<not> ltValue v v"
  by (cases v) (simp_all add: numLess_irrefl)

lemma compareTracks_tie:
  "sortValue sortBy a = sortValue sortBy b \<Longrightarrow>
     compareTracks sortBy sortOrder a b = - 1 \<and> compareTracks sortBy sortOrder b a = - 1"
  by (cases sortOrder) (simp_all add: compareTracks_def Let_def gtValue_irrefl ltValue_irrefl)

text \<open>The comparator of \<open>getMostPlayedTracks\<close> answers \<open>0\<close> for equal finite counts.\<close>

lemma mostPlayedCompare_tie:
  assumes "plays a = plays b" "plays a \<noteq> PosInf" "plays a \<noteq> NegInf"
  shows "mostPlayedCompare a b = Num 0"
proof -
  have "\<exists>r. orZero (plays a) = Num r"
    using assms(2,3) by (cases "plays a") (auto simp: orZero_def)
  then obtain r where r: "orZero (plays a) = Num r" ..
  have "roundDouble 0 = Num 0" by (simp add: roundDouble_def)
  then show ?thesis
    using assms(1) r by (simp add: mostPlayedCompare_def jsSub_def)
qed

text \<open>
  C4. Two tracks of the same title: the comparator of the projection answers \<open>-1\<close> for
  the pair in either order, ascending or descending. It never answers \<open>0\<close>, so it tells
  the engine's sort that each of the two goes before the other, and the order of equal keys
  is whatever the engine makes of that; it is not bound to the input order.
\<close>

theorem compareTracks_equal_titles:
  "title trackA = title trackA2
   \<and> compareTracks TITLE ASC trackA trackA2 = - 1
   \<and> compareTracks TITLE ASC trackA2 trackA = - 1
   \<and> compareTracks TITLE DESC trackA trackA2 = - 1
   \<and> compareTracks TITLE DESC trackA2 trackA = - 1"
  by (simp add: compareTracks_def trackA_def trackA2_def mkTrack_def Let_def)

end
